theory Spec2Isabelle
  imports Main
begin

section \<open>The module runtime of jest-runtime (packages/jest-runtime/src/index.ts)\<close>

text \<open>
  The class \<open>Runtime\<close> is embedded as a record of its private fields together with the
  heap objects the fields point to. Every method becomes a function that takes the
  runtime and returns the updated runtime together with either the thrown error or the
  returned value. The collaborators of the class (resolver, transformer, environment,
  the host's \<open>path\<close> and \<open>fs\<close> modules and the project configuration) are the
  fields of one parameter record. Embedded are the require surface, the loader, the
  executor, the automock generation, the resolution policy and the registry operations
  of the \<open>jest\<close> object; \<open>require.resolve\<close>, the timer controls and the static
  factory methods are not.
\<close>

subsection \<open>JavaScript values and thrown errors\<close>

text \<open>
  Objects are references: two objects are identical exactly when their addresses are.
  The properties of an object are not modelled, \<open>exports\<close> is an opaque value.
\<close>

datatype jsval = JUndefined | JNull | JBool bool | JNum int | JStr string | JObj nat

fun truthy :: "jsval \<Rightarrow> bool" where
  "truthy JUndefined = False"
| "truthy JNull = False"
| "truthy (JBool b) = b"
| "truthy (JNum n) = (n \<noteq> 0)"
| "truthy (JStr s) = (s \<noteq> [])"
| "truthy (JObj a) = True"

text \<open>Truthiness of a value of type \<open>string | undefined | null\<close>.\<close>

fun str_truthy :: "string option \<Rightarrow> bool" where
  "str_truthy None = False"
| "str_truthy (Some s) = (s \<noteq> [])"

text \<open>\<open>String.prototype.includes\<close>.\<close>

fun str_includes :: "string \<Rightarrow> string \<Rightarrow> bool" where
  "str_includes [] sub = (sub = [])"
| "str_includes (c # cs) sub = (take (length sub) (c # cs) = sub \<or> str_includes cs sub)"

datatype error =
    ModuleNotFound string
  | NestedIsolation
  | MissingExtraGlobal string
  | MetadataNull string
  | TypeError string
  | Thrown string

text \<open>The messages of the errors the runtime itself constructs.\<close>

fun message :: "error \<Rightarrow> string" where
  "message (ModuleNotFound m) = m"
| "message NestedIsolation = ''isolateModules cannot be nested inside another isolateModules.''"
| "message (MissingExtraGlobal g) =
     ''You have requested '' @ [CHR 0x27] @ g @ [CHR 0x27] @
     '' as a global variable, but it was not present. Please check your config or your global environment.''"
| "message (MetadataNull p) =
     ''Failed to get mock metadata: '' @ p @ [CHR 0x0A, CHR 0x0A] @
     ''See: https://jestjs.io/docs/manual-mocks.html#content''"
| "message (TypeError m) = m"
| "message (Thrown m) = m"

subsection \<open>Evaluated code\<close>

text \<open>
  A transformed module, the callback of \<open>isolateModules\<close> and a mock factory are user
  code. User code is a sequence of the operations it can perform on what the executor
  hands to it: the module object, the bound \<open>require\<close> and the \<open>jest\<close> object.
  \<open>LastValue\<close> is the value the most recent \<open>require\<close> of the same sequence returned.
  \<open>TryCatch body handler\<close> is the statement \<open>try { body } catch (e) { handler }\<close>
  and \<open>TryFinally body finalizer\<close> the statement \<open>try { body } finally { finalizer }\<close>;
  an error thrown by an operation that is in no \<open>try\<close> block ends the sequence.
  \<open>TryCatch\<close> stands for whatever catches an error thrown by the code it encloses:
  a library function that calls back, and a finalizer that ends in \<open>return\<close>, are
  handlers.
\<close>

datatype expr = Lit jsval | NewObject | LastValue

datatype stmt =
    Require string
  | RequireActual string
  | RequireMock string
  | SetExports expr
  | Throw error
  | JestMock string "(stmt list \<times> expr) option" bool
  | JestSetMock string jsval
  | JestUnmock string
  | JestDeepUnmock string
  | JestEnableAutomock
  | JestDisableAutomock
  | JestResetModules
  | JestIsolateModules "stmt list"
  | JestGenMockFromModule string
  | TryCatch "stmt list" "stmt list"
  | TryFinally "stmt list" "stmt list"

text \<open>
  What a piece of user code closes over: the file name its \<open>require\<close> and \<open>jest\<close>
  object are bound to, its module object, and whether its \<open>require\<close> was created with
  \<open>isInternalModule\<close>.
\<close>

record ctx =
  ctx_filename :: string
  ctx_module :: nat
  ctx_internal :: bool

record factory =
  fac_ctx :: ctx
  fac_body :: "stmt list"
  fac_result :: expr

subsection \<open>Module records and the runtime\<close>

text \<open>
  \<open>InitialModule\<close>. The accessors \<open>parent\<close> and \<open>require\<close> that the executor
  installs are closures over the arguments of the executor and carry no state.
\<close>

record module =
  mod_id :: string
  filename :: string
  exports :: jsval
  loaded :: bool
  children :: "nat list"
  paths :: "string list"

text \<open>
  The private fields of \<open>Runtime\<close>. A field of type \<open>Map\<close> holds the address of a
  map object; \<open>moduleMaps\<close> and \<open>mockMaps\<close> are the heaps of the map objects of type
  \<open>ModuleRegistry\<close> and \<open>Map<string, any>\<close>, \<open>modules\<close> is the heap of module records.
  \<open>exitCode\<close> is \<open>process.exitCode\<close> and \<open>consoleErrors\<close> what was passed
  to \<open>console.error\<close>.
\<close>

record runtime =
  currentlyExecutingModulePath :: string
  isCurrentlyExecutingManualMock :: "string option"
  explicitShouldMock :: "string \<rightharpoonup> bool"
  transitiveShouldMock :: "string \<rightharpoonup> bool"
  mockFactories :: "string \<rightharpoonup> factory"
  mockMetaDataCache :: "string \<rightharpoonup> jsval"
  mockRegistry :: nat
  isolatedMockRegistry :: "nat option"
  moduleRegistry :: nat
  isolatedModuleRegistry :: "nat option"
  internalModuleRegistry :: nat
  needsCoverageMapped :: "string set"
  shouldAutoMock :: bool
  shouldMockModuleCache :: "string \<rightharpoonup> bool"
  shouldUnmockTransitiveDependenciesCache :: "string \<rightharpoonup> bool"
  sourceMapRegistry :: "string \<rightharpoonup> string"
  virtualMocks :: "string \<rightharpoonup> bool"
  moduleMaps :: "nat \<Rightarrow> (string \<rightharpoonup> nat)"
  nextModuleMap :: nat
  mockMaps :: "nat \<Rightarrow> (string \<rightharpoonup> jsval)"
  nextMockMap :: nat
  modules :: "nat \<Rightarrow> module"
  nextModule :: nat
  nextObject :: nat
  exitCode :: "nat option"
  consoleErrors :: "string list"

subsection \<open>Collaborators\<close>

record transformed =
  script :: "stmt list"
  sourceMapPath :: "string option"
  mapCoverage :: bool

text \<open>
  The resolver, the transformer, the environment, the host and the configuration.
  A function that can throw returns a sum. \<open>env_global\<close> is \<open>None\<close> when the
  environment has been torn down, and maps a property name to its value otherwise.
  \<open>getMetadata\<close> returns \<open>JNull\<close> for no metadata; \<open>generateFromMetadata\<close> and
  \<open>jsonParse\<close> return \<open>None\<close> when their result is a new object.
\<close>

record ext =
  getModuleID :: "(string \<rightharpoonup> bool) \<Rightarrow> string \<Rightarrow> string option \<Rightarrow> string"
  getModule :: "string \<Rightarrow> string option"
  getMockModule :: "string \<Rightarrow> string \<Rightarrow> string option"
  isCoreModule :: "string \<Rightarrow> bool"
  resolveModule :: "string \<Rightarrow> string \<Rightarrow> error + string"
  resolveStubModuleName :: "string \<Rightarrow> string \<Rightarrow> string option"
  getModulePath :: "string \<Rightarrow> string \<Rightarrow> string"
  getModulePaths :: "string \<Rightarrow> string list"
  transform :: "string \<Rightarrow> bool \<Rightarrow> error + transformed"
  transformJson :: "string \<Rightarrow> bool \<Rightarrow> error + string"
  env_global :: "(string \<rightharpoonup> jsval) option"
  runScript :: "stmt list \<Rightarrow> stmt list option"
  getMetadata :: "jsval \<Rightarrow> jsval"
  generateFromMetadata :: "jsval \<Rightarrow> jsval option"
  jsonParse :: "string \<Rightarrow> error + jsval option"
  hostRequire :: "string \<Rightarrow> error + jsval"
  existsSync :: "string \<Rightarrow> bool"
  path_sep :: string
  path_delimiter :: string
  path_extname :: "string \<Rightarrow> string"
  path_dirname :: "string \<Rightarrow> string"
  path_basename :: "string \<Rightarrow> string"
  path_join :: "string list \<Rightarrow> string"
  extraGlobals :: "string list"
  unmockList :: "(string \<Rightarrow> bool) option"
  findSiblingsWithFileExtension :: "string \<Rightarrow> string \<Rightarrow> string"

subsection \<open>Results\<close>

text \<open>
  A call ends in a thrown error (\<open>Inl\<close>) or a returned value (\<open>Inr\<close>), and in both
  cases leaves a runtime behind. A call that evaluates user code can recurse without
  bound; \<open>None\<close> is the call that does not come back.
\<close>

type_synonym 'a res = "(error + 'a) \<times> runtime"

definition andThen :: "'a res option \<Rightarrow> ('a \<Rightarrow> runtime \<Rightarrow> 'b res option) \<Rightarrow> 'b res option" where
  "andThen m f =
     (case m of
        None \<Rightarrow> None
      | Some (Inl e, s) \<Rightarrow> Some (Inl e, s)
      | Some (Inr v, s) \<Rightarrow> f v s)"

text \<open>A handler: it runs on a thrown error, in the runtime the throw left behind.\<close>

definition catchError :: "'a res option \<Rightarrow> (error \<Rightarrow> runtime \<Rightarrow> 'a res option) \<Rightarrow> 'a res option" where
  "catchError m h =
     (case m of
        None \<Rightarrow> None
      | Some (Inl e, s) \<Rightarrow> h e s
      | Some (Inr v, s) \<Rightarrow> Some (Inr v, s))"

text \<open>
  A finalizer: it runs in the runtime the body left behind, however the body ended, and
  the outcome of the body stands unless the finalizer throws.
\<close>

definition finallyDo :: "'a res option \<Rightarrow> (runtime \<Rightarrow> 'b res option) \<Rightarrow> 'a res option" where
  "finallyDo m f =
     (case m of
        None \<Rightarrow> None
      | Some (r, s) \<Rightarrow>
          (case f s of
             None \<Rightarrow> None
           | Some (Inl e, s1) \<Rightarrow> Some (Inl e, s1)
           | Some (Inr v, s1) \<Rightarrow> Some (r, s1)))"

text \<open>Heap allocation: \<open>new Map()\<close> and the object literal \<open>{}\<close>.\<close>

definition newModuleMap :: "runtime \<Rightarrow> nat \<times> runtime" where
  "newModuleMap s =
     (nextModuleMap s,
      s\<lparr>moduleMaps := (moduleMaps s)(nextModuleMap s := Map.empty),
        nextModuleMap := Suc (nextModuleMap s)\<rparr>)"

definition newMockMap :: "runtime \<Rightarrow> nat \<times> runtime" where
  "newMockMap s =
     (nextMockMap s,
      s\<lparr>mockMaps := (mockMaps s)(nextMockMap s := Map.empty),
        nextMockMap := Suc (nextMockMap s)\<rparr>)"

definition newObject :: "runtime \<Rightarrow> jsval \<times> runtime" where
  "newObject s = (JObj (nextObject s), s\<lparr>nextObject := Suc (nextObject s)\<rparr>)"

definition newModule :: "module \<Rightarrow> runtime \<Rightarrow> nat \<times> runtime" where
  "newModule m s =
     (nextModule s,
      s\<lparr>modules := (modules s)(nextModule s := m), nextModule := Suc (nextModule s)\<rparr>)"

definition mapGet :: "runtime \<Rightarrow> nat \<Rightarrow> string \<Rightarrow> jsval" where
  "mapGet s a k = (case mockMaps s a k of None \<Rightarrow> JUndefined | Some v \<Rightarrow> v)"

definition mapSet :: "nat \<Rightarrow> string \<Rightarrow> jsval \<Rightarrow> runtime \<Rightarrow> runtime" where
  "mapSet a k v s = s\<lparr>mockMaps := (mockMaps s)(a := (mockMaps s a)(k \<mapsto> v))\<rparr>"

definition moduleMapSet :: "nat \<Rightarrow> string \<Rightarrow> nat \<Rightarrow> runtime \<Rightarrow> runtime" where
  "moduleMapSet a k m s = s\<lparr>moduleMaps := (moduleMaps s)(a := (moduleMaps s a)(k \<mapsto> m))\<rparr>"

definition setExports :: "nat \<Rightarrow> jsval \<Rightarrow> runtime \<Rightarrow> runtime" where
  "setExports m v s = s\<lparr>modules := (modules s)(m := (modules s m)\<lparr>exports := v\<rparr>)\<rparr>"

subsection \<open>Methods that evaluate no user code\<close>

text \<open>Reading a property of an object: a property that is not there reads as \<open>undefined\<close>.\<close>

definition getProperty :: "(string \<rightharpoonup> jsval) \<Rightarrow> string \<Rightarrow> jsval" where
  "getProperty g k = (case g k of None \<Rightarrow> JUndefined | Some v \<Rightarrow> v)"

text \<open>\<open>_resolveModule\<close>\<close>

definition resolveModule' :: "ext \<Rightarrow> string \<Rightarrow> string option \<Rightarrow> error + string" where
  "resolveModule' ext from to =
     (if str_truthy to then resolveModule ext from (the to) else Inr from)"

text \<open>\<open>_requireCoreModule\<close>; reading \<open>process\<close> from a null global is a \<open>TypeError\<close>.\<close>

definition requireCoreModule :: "ext \<Rightarrow> string \<Rightarrow> error + jsval" where
  "requireCoreModule ext moduleName =
     (if moduleName = ''process'' then
        (case env_global ext of
           None \<Rightarrow> Inl (TypeError ''Cannot read property of null'')
         | Some g \<Rightarrow> Inr (getProperty g ''process''))
      else hostRequire ext moduleName)"

text \<open>\<open>_logFormattedReferenceError\<close>; the formatting of the message is the host's.\<close>

definition logFormattedReferenceError :: "string \<Rightarrow> runtime \<Rightarrow> runtime" where
  "logFormattedReferenceError errorMessage s = s\<lparr>consoleErrors := consoleErrors s @ [errorMessage]\<rparr>"

text \<open>
  The arguments the executor computes from \<open>extraGlobals\<close>: \<open>Array.prototype.map\<close> calls
  its callback in order, and the callback throws at a value that is not truthy.
\<close>

fun lookupExtraGlobals :: "(string \<rightharpoonup> jsval) \<Rightarrow> string list \<Rightarrow> error + jsval list" where
  "lookupExtraGlobals g [] = Inr []"
| "lookupExtraGlobals g (globalVariable # rest) =
     (if truthy (getProperty g globalVariable) then
        (case lookupExtraGlobals g rest of
           Inl e \<Rightarrow> Inl e
         | Inr vs \<Rightarrow> Inr (getProperty g globalVariable # vs))
      else Inl (MissingExtraGlobal globalVariable))"

text \<open>\<open>_shouldMock\<close>\<close>

definition NODE_MODULES :: "ext \<Rightarrow> string" where
  "NODE_MODULES ext = path_sep ext @ ''node_modules'' @ path_sep ext"

definition unmockListTest :: "ext \<Rightarrow> string \<Rightarrow> bool" where
  "unmockListTest ext p = (case unmockList ext of None \<Rightarrow> False | Some test \<Rightarrow> test p)"

definition shouldMock :: "ext \<Rightarrow> string \<Rightarrow> string \<Rightarrow> runtime \<Rightarrow> bool res" where
  "shouldMock ext from moduleName s =
     (let moduleID = getModuleID ext (virtualMocks s) from (Some moduleName);
          key = from @ path_delimiter ext @ moduleID
      in case explicitShouldMock s moduleID of
           Some b \<Rightarrow> (Inr b, s)
         | None \<Rightarrow>
             if \<not> shouldAutoMock s \<or> isCoreModule ext moduleName
                \<or> shouldUnmockTransitiveDependenciesCache s key = Some True
             then (Inr False, s)
             else
               (case shouldMockModuleCache s moduleID of
                  Some b \<Rightarrow> (Inr b, s)
                | None \<Rightarrow>
                    (case resolveModule' ext from (Some moduleName) of
                       Inl e \<Rightarrow>
                         if str_truthy (getMockModule ext from moduleName)
                         then (Inr True,
                               s\<lparr>shouldMockModuleCache := (shouldMockModuleCache s)(moduleID \<mapsto> True)\<rparr>)
                         else (Inl e, s)
                     | Inr modulePath \<Rightarrow>
                         if unmockListTest ext modulePath
                         then (Inr False,
                               s\<lparr>shouldMockModuleCache := (shouldMockModuleCache s)(moduleID \<mapsto> False)\<rparr>)
                         else
                           (let currentModuleID = getModuleID ext (virtualMocks s) from None
                            in if transitiveShouldMock s currentModuleID = Some False
                                  \<or> (str_includes from (NODE_MODULES ext)
                                      \<and> str_includes modulePath (NODE_MODULES ext)
                                      \<and> (unmockListTest ext from
                                          \<or> explicitShouldMock s currentModuleID = Some False))
                               then (Inr False,
                                     s\<lparr>transitiveShouldMock := (transitiveShouldMock s)(moduleID \<mapsto> False),
                                       shouldUnmockTransitiveDependenciesCache :=
                                         (shouldUnmockTransitiveDependenciesCache s)(key \<mapsto> True)\<rparr>)
                               else (Inr True,
                                     s\<lparr>shouldMockModuleCache := (shouldMockModuleCache s)(moduleID \<mapsto> True)\<rparr>)))))"

text \<open>\<open>setMock\<close>\<close>

definition setMock :: "ext \<Rightarrow> string \<Rightarrow> string \<Rightarrow> factory \<Rightarrow> bool \<Rightarrow> runtime \<Rightarrow> runtime" where
  "setMock ext from moduleName mockFactory virtual s =
     (let s1 = (if virtual
                then s\<lparr>virtualMocks := (virtualMocks s)(getModulePath ext from moduleName \<mapsto> True)\<rparr>
                else s);
          moduleID = getModuleID ext (virtualMocks s1) from (Some moduleName)
      in s1\<lparr>explicitShouldMock := (explicitShouldMock s1)(moduleID \<mapsto> True),
            mockFactories := (mockFactories s1)(moduleID \<mapsto> mockFactory)\<rparr>)"

text \<open>
  \<open>resetModules\<close>. \<open>Map.prototype.clear\<close> empties the map object in place. The calls
  of \<open>mockClear\<close> and \<open>clearAllTimers\<close> act on the environment only.
\<close>

definition resetModules :: "runtime \<Rightarrow> runtime" where
  "resetModules s =
     s\<lparr>isolatedModuleRegistry := None,
       isolatedMockRegistry := None,
       mockMaps := (mockMaps s)(mockRegistry s := Map.empty),
       moduleMaps := (moduleMaps s)(moduleRegistry s := Map.empty)\<rparr>"

text \<open>The mutators of the \<open>jest\<close> object that \<open>_createJestObjectFor\<close> builds.\<close>

definition disableAutomock :: "runtime \<Rightarrow> runtime" where
  "disableAutomock s = s\<lparr>shouldAutoMock := False\<rparr>"

definition enableAutomock :: "runtime \<Rightarrow> runtime" where
  "enableAutomock s = s\<lparr>shouldAutoMock := True\<rparr>"

definition unmock :: "ext \<Rightarrow> string \<Rightarrow> string \<Rightarrow> runtime \<Rightarrow> runtime" where
  "unmock ext from moduleName s =
     (let moduleID = getModuleID ext (virtualMocks s) from (Some moduleName)
      in s\<lparr>explicitShouldMock := (explicitShouldMock s)(moduleID \<mapsto> False)\<rparr>)"

definition deepUnmock :: "ext \<Rightarrow> string \<Rightarrow> string \<Rightarrow> runtime \<Rightarrow> runtime" where
  "deepUnmock ext from moduleName s =
     (let moduleID = getModuleID ext (virtualMocks s) from (Some moduleName)
      in s\<lparr>explicitShouldMock := (explicitShouldMock s)(moduleID \<mapsto> False),
           transitiveShouldMock := (transitiveShouldMock s)(moduleID \<mapsto> False)\<rparr>)"

definition mock :: "ext \<Rightarrow> ctx \<Rightarrow> string \<Rightarrow> (stmt list \<times> expr) option \<Rightarrow> bool \<Rightarrow> runtime \<Rightarrow> runtime" where
  "mock ext c moduleName mockFactory virtual s =
     (case mockFactory of
        Some (body, result) \<Rightarrow>
          setMock ext (ctx_filename c) moduleName
            \<lparr>fac_ctx = c, fac_body = body, fac_result = result\<rparr> virtual s
      | None \<Rightarrow>
          (let moduleID = getModuleID ext (virtualMocks s) (ctx_filename c) (Some moduleName)
           in s\<lparr>explicitShouldMock := (explicitShouldMock s)(moduleID \<mapsto> True)\<rparr>))"

subsection \<open>Evaluating user code\<close>

text \<open>
  The calls user code makes back into the runtime through its \<open>require\<close> and its
  \<open>jest\<close> object. Every method below that evaluates user code takes the function
  \<open>rec\<close> that performs these calls; \<open>run\<close> at the end ties the knot.
\<close>

datatype call =
    CRequireModuleOrMock string string
  | CRequireInternalModule string string
  | CRequireActual string string
  | CRequireMock string string
  | CGenerateMock string string
  | CIsolateModules ctx "stmt list"

type_synonym rec = "call \<Rightarrow> runtime \<Rightarrow> jsval res option"

fun evalExpr :: "expr \<Rightarrow> jsval \<Rightarrow> runtime \<Rightarrow> jsval \<times> runtime" where
  "evalExpr (Lit v) lastValue s = (v, s)"
| "evalExpr NewObject lastValue s = newObject s"
| "evalExpr LastValue lastValue s = (lastValue, s)"

text \<open>
  One operation of user code bound to \<open>c\<close>. \<open>require\<close> is what
  \<open>_createRequireImplementation\<close> makes it: \<open>requireInternalModule\<close> for an internal
  module and \<open>requireModuleOrMock\<close> otherwise. The result is the new \<open>LastValue\<close>.
  A sequence of operations runs them in order and stops at the first that throws.
\<close>

fun execStmt :: "rec \<Rightarrow> ext \<Rightarrow> ctx \<Rightarrow> stmt \<Rightarrow> jsval \<Rightarrow> runtime \<Rightarrow> jsval res option"
  and execStmts :: "rec \<Rightarrow> ext \<Rightarrow> ctx \<Rightarrow> stmt list \<Rightarrow> jsval \<Rightarrow> runtime \<Rightarrow> jsval res option" where
  "execStmt rec ext c (Require moduleName) lastValue s =
     (if ctx_internal c then rec (CRequireInternalModule (ctx_filename c) moduleName) s
      else rec (CRequireModuleOrMock (ctx_filename c) moduleName) s)"
| "execStmt rec ext c (RequireActual moduleName) lastValue s =
     rec (CRequireActual (ctx_filename c) moduleName) s"
| "execStmt rec ext c (RequireMock moduleName) lastValue s =
     rec (CRequireMock (ctx_filename c) moduleName) s"
| "execStmt rec ext c (SetExports e) lastValue s =
     (case evalExpr e lastValue s of (v, s1) \<Rightarrow> Some (Inr lastValue, setExports (ctx_module c) v s1))"
| "execStmt rec ext c (Throw e) lastValue s = Some (Inl e, s)"
| "execStmt rec ext c (JestMock moduleName mockFactory virtual) lastValue s =
     Some (Inr lastValue, mock ext c moduleName mockFactory virtual s)"
| "execStmt rec ext c (JestSetMock moduleName v) lastValue s =
     Some (Inr lastValue,
           setMock ext (ctx_filename c) moduleName
             \<lparr>fac_ctx = c, fac_body = [], fac_result = Lit v\<rparr> False s)"
| "execStmt rec ext c (JestUnmock moduleName) lastValue s =
     Some (Inr lastValue, unmock ext (ctx_filename c) moduleName s)"
| "execStmt rec ext c (JestDeepUnmock moduleName) lastValue s =
     Some (Inr lastValue, deepUnmock ext (ctx_filename c) moduleName s)"
| "execStmt rec ext c JestEnableAutomock lastValue s = Some (Inr lastValue, enableAutomock s)"
| "execStmt rec ext c JestDisableAutomock lastValue s = Some (Inr lastValue, disableAutomock s)"
| "execStmt rec ext c JestResetModules lastValue s = Some (Inr lastValue, resetModules s)"
| "execStmt rec ext c (JestIsolateModules fn) lastValue s =
     andThen (rec (CIsolateModules c fn) s) (\<lambda>_ s1. Some (Inr lastValue, s1))"
| "execStmt rec ext c (JestGenMockFromModule moduleName) lastValue s =
     rec (CGenerateMock (ctx_filename c) moduleName) s"
| "execStmt rec ext c (TryCatch body handler) lastValue s =
     catchError (execStmts rec ext c body lastValue s)
       (\<lambda>e s1. execStmts rec ext c handler lastValue s1)"
| "execStmt rec ext c (TryFinally body finalizer) lastValue s =
     finallyDo (execStmts rec ext c body lastValue s)
       (\<lambda>s1. execStmts rec ext c finalizer lastValue s1)"
| "execStmts rec ext c [] lastValue s = Some (Inr lastValue, s)"
| "execStmts rec ext c (x # xs) lastValue s =
     andThen (execStmt rec ext c x lastValue s) (\<lambda>v s1. execStmts rec ext c xs v s1)"

text \<open>Calling a mock factory: its body, then its \<open>return\<close> expression.\<close>

definition callFactory :: "rec \<Rightarrow> ext \<Rightarrow> factory \<Rightarrow> runtime \<Rightarrow> jsval res option" where
  "callFactory rec ext f s =
     andThen (execStmts rec ext (fac_ctx f) (fac_body f) JUndefined s)
       (\<lambda>lastValue s1. case evalExpr (fac_result f) lastValue s1 of (v, s2) \<Rightarrow> Some (Inr v, s2))"

subsection \<open>The executor and the loader\<close>

text \<open>
  \<open>_execModule\<close>. The parameter \<open>moduleRegistry\<close> of the source is read by the
  \<open>parent\<close> accessor only and is left out; \<open>from\<close> is kept.
\<close>

definition execModule :: "rec \<Rightarrow> ext \<Rightarrow> nat \<Rightarrow> bool \<Rightarrow> string option \<Rightarrow> runtime \<Rightarrow> unit res option" where
  "execModule rec ext localModule isInternalModule from s =
     (case env_global ext of
        None \<Rightarrow> Some (Inr (), s)
      | Some g \<Rightarrow>
          (let fname = filename (modules s localModule);
               lastExecutingModulePath = currentlyExecutingModulePath s;
               s1 = s\<lparr>currentlyExecutingModulePath := fname\<rparr>;
               origCurrExecutingManualMock = isCurrentlyExecutingManualMock s1;
               s2 = s1\<lparr>isCurrentlyExecutingManualMock := Some fname\<rparr>;
               dirname = path_dirname ext fname;
               s3 = s2\<lparr>modules := (modules s2)(localModule :=
                      (modules s2 localModule)\<lparr>children := [], paths := getModulePaths ext dirname\<rparr>)\<rparr>
           in case transform ext fname isInternalModule of
                Inl e \<Rightarrow> Some (Inl e, s3)
              | Inr transformedFile \<Rightarrow>
                  (let s4 = (if str_truthy (sourceMapPath transformedFile)
                             then s3\<lparr>sourceMapRegistry :=
                                       (sourceMapRegistry s3)(fname \<mapsto> the (sourceMapPath transformedFile)),
                                     needsCoverageMapped :=
                                       (if mapCoverage transformedFile
                                        then insert fname (needsCoverageMapped s3)
                                        else needsCoverageMapped s3)\<rparr>
                             else s3)
                   in case runScript ext (script transformedFile) of
                        None \<Rightarrow>
                          Some (Inr (),
                                (logFormattedReferenceError
                                   ''You are trying to `import` a file after the Jest environment has been torn down.''
                                   s4)\<lparr>exitCode := Some 1\<rparr>)
                      | Some wrapper \<Rightarrow>
                          (case lookupExtraGlobals g (extraGlobals ext) of
                             Inl e \<Rightarrow> Some (Inl e, s4)
                           | Inr args \<Rightarrow>
                               andThen
                                 (execStmts rec ext
                                    \<lparr>ctx_filename = fname, ctx_module = localModule,
                                     ctx_internal = isInternalModule\<rparr>
                                    wrapper JUndefined s4)
                                 (\<lambda>_ s5.
                                    Some (Inr (),
                                          s5\<lparr>isCurrentlyExecutingManualMock := origCurrExecutingManualMock,
                                             currentlyExecutingModulePath := lastExecutingModulePath\<rparr>))))))"

text \<open>
  \<open>_loadModule\<close>. \<open>transformJson\<close> stands for reading the file, stripping the byte
  order mark and the transformer's \<open>transformJson\<close>; \<open>hostRequire\<close> is the host's
  own \<open>require\<close>.
\<close>

definition loadModule ::
  "rec \<Rightarrow> ext \<Rightarrow> nat \<Rightarrow> string \<Rightarrow> string option \<Rightarrow> string \<Rightarrow> bool \<Rightarrow> runtime \<Rightarrow> unit res option" where
  "loadModule rec ext localModule from moduleName modulePath isInternalModule s =
     andThen
       (if path_extname ext modulePath = ''.json'' then
          (case transformJson ext modulePath isInternalModule of
             Inl e \<Rightarrow> Some (Inl e, s)
           | Inr transformedFile \<Rightarrow>
               (case env_global ext of
                  None \<Rightarrow> Some (Inl (TypeError ''Cannot read property of null''), s)
                | Some g \<Rightarrow>
                    (case jsonParse ext transformedFile of
                       Inl e \<Rightarrow> Some (Inl e, s)
                     | Inr parsed \<Rightarrow>
                         (case (case parsed of Some v \<Rightarrow> (v, s) | None \<Rightarrow> newObject s) of
                            (v, s1) \<Rightarrow> Some (Inr (), setExports localModule v s1)))))
        else if path_extname ext modulePath = ''.node'' then
          (case hostRequire ext modulePath of
             Inl e \<Rightarrow> Some (Inl e, s)
           | Inr v \<Rightarrow> Some (Inr (), setExports localModule v s))
        else
          execModule rec ext localModule isInternalModule
            (if str_truthy moduleName then Some from else None) s)
       (\<lambda>_ s1.
          Some (Inr (),
                s1\<lparr>modules := (modules s1)(localModule := (modules s1 localModule)\<lparr>loaded := True\<rparr>)\<rparr>))"

subsection \<open>The require surface\<close>

text \<open>The object literal of \<open>localModule\<close> in \<open>requireModule\<close> and \<open>requireMock\<close>.\<close>

definition newLocalModule :: "string \<Rightarrow> runtime \<Rightarrow> nat \<times> runtime" where
  "newLocalModule modulePath s =
     (case newObject s of
        (e, s1) \<Rightarrow>
          newModule \<lparr>mod_id = modulePath, filename = modulePath, exports = e, loaded = False,
                     children = [], paths = []\<rparr> s1)"

text \<open>
  \<open>requireModule\<close>; \<open>options\<close> is given by its only field \<open>isInternalModule\<close>,
  absent options being \<open>False\<close>.
\<close>

definition requireModule ::
  "rec \<Rightarrow> ext \<Rightarrow> string \<Rightarrow> string option \<Rightarrow> bool \<Rightarrow> bool \<Rightarrow> runtime \<Rightarrow> jsval res option" where
  "requireModule rec ext from moduleName isInternalModule isRequireActual s =
     (let moduleID = getModuleID ext (virtualMocks s) from moduleName;
          moduleResource = (if str_truthy moduleName then getModule ext (the moduleName) else moduleName);
          manualMock = (if str_truthy moduleName then getMockModule ext from (the moduleName) else moduleName);
          modulePath0 =
            (if \<not> isInternalModule \<and> \<not> isRequireActual \<and> \<not> str_truthy moduleResource
                \<and> str_truthy manualMock
                \<and> manualMock \<noteq> isCurrentlyExecutingManualMock s
                \<and> explicitShouldMock s moduleID \<noteq> Some False
             then manualMock else None)
      in if str_truthy moduleName \<and> isCoreModule ext (the moduleName)
         then Some (requireCoreModule ext (the moduleName), s)
         else
           (case (if \<not> str_truthy modulePath0 then resolveModule' ext from moduleName
                  else Inr (the modulePath0)) of
              Inl e \<Rightarrow> Some (Inl e, s)
            | Inr modulePath \<Rightarrow>
                (let registry =
                       (if \<not> isInternalModule then
                          (if moduleMaps s (moduleRegistry s) modulePath \<noteq> None
                              \<or> isolatedModuleRegistry s = None
                           then moduleRegistry s
                           else the (isolatedModuleRegistry s))
                        else internalModuleRegistry s)
                 in case moduleMaps s registry modulePath of
                      Some m \<Rightarrow> Some (Inr (exports (modules s m)), s)
                    | None \<Rightarrow>
                        (case newLocalModule modulePath s of
                           (localModule, s1) \<Rightarrow>
                             andThen
                               (loadModule rec ext localModule from moduleName modulePath
                                  isInternalModule
                                  (moduleMapSet registry modulePath localModule s1))
                               (\<lambda>_ s2. Some (Inr (exports (modules s2 localModule)), s2))))))"

definition requireInternalModule :: "rec \<Rightarrow> ext \<Rightarrow> string \<Rightarrow> string option \<Rightarrow> runtime \<Rightarrow> jsval res option" where
  "requireInternalModule rec ext from to s = requireModule rec ext from to True False s"

definition requireActual :: "rec \<Rightarrow> ext \<Rightarrow> string \<Rightarrow> string \<Rightarrow> runtime \<Rightarrow> jsval res option" where
  "requireActual rec ext from moduleName s = requireModule rec ext from (Some moduleName) False True s"

text \<open>\<open>_generateMock\<close>\<close>

definition generateMock :: "rec \<Rightarrow> ext \<Rightarrow> string \<Rightarrow> string \<Rightarrow> runtime \<Rightarrow> jsval res option" where
  "generateMock rec ext from moduleName s =
     (case (if str_truthy (resolveStubModuleName ext from moduleName)
            then Inr (the (resolveStubModuleName ext from moduleName))
            else resolveModule' ext from (Some moduleName)) of
        Inl e \<Rightarrow> Some (Inl e, s)
      | Inr modulePath \<Rightarrow>
          andThen
            (if mockMetaDataCache s modulePath = None then
               (case newObject s of
                  (emptyObject, s1) \<Rightarrow>
                    (case (if truthy (getMetadata ext emptyObject)
                           then (getMetadata ext emptyObject, s1)
                           else newObject s1) of
                       (metadata0, s2) \<Rightarrow>
                         (let s3 = s2\<lparr>mockMetaDataCache := (mockMetaDataCache s2)(modulePath \<mapsto> metadata0)\<rparr>;
                              origMockRegistry = mockRegistry s3;
                              origModuleRegistry = moduleRegistry s3
                          in case newMockMap s3 of
                               (freshMock, s4) \<Rightarrow>
                                 (case newModuleMap (s4\<lparr>mockRegistry := freshMock\<rparr>) of
                                    (freshModule, s5) \<Rightarrow>
                                      andThen
                                        (requireModule rec ext from (Some moduleName) False False
                                           (s5\<lparr>moduleRegistry := freshModule\<rparr>))
                                        (\<lambda>moduleExports s6.
                                           (let s7 = s6\<lparr>mockRegistry := origMockRegistry,
                                                         moduleRegistry := origModuleRegistry\<rparr>;
                                                mockMetadata = getMetadata ext moduleExports
                                            in if mockMetadata = JNull \<or> mockMetadata = JUndefined
                                               then Some (Inl (MetadataNull modulePath), s7)
                                               else Some (Inr (),
                                                          s7\<lparr>mockMetaDataCache :=
                                                               (mockMetaDataCache s7)(modulePath \<mapsto> mockMetadata)\<rparr>)))))))
             else Some (Inr (), s))
            (\<lambda>_ s8.
               (case generateFromMetadata ext
                       (case mockMetaDataCache s8 modulePath of None \<Rightarrow> JUndefined | Some md \<Rightarrow> md) of
                  Some v \<Rightarrow> Some (Inr v, s8)
                | None \<Rightarrow> (case newObject s8 of (v, s9) \<Rightarrow> Some (Inr v, s9)))))"

text \<open>\<open>requireMock\<close>\<close>

definition requireMock :: "rec \<Rightarrow> ext \<Rightarrow> string \<Rightarrow> string \<Rightarrow> runtime \<Rightarrow> jsval res option" where
  "requireMock rec ext from moduleName s =
     (let moduleID = getModuleID ext (virtualMocks s) from (Some moduleName)
      in if isolatedMockRegistry s \<noteq> None
            \<and> truthy (mapGet s (the (isolatedMockRegistry s)) moduleID)
         then Some (Inr (mapGet s (the (isolatedMockRegistry s)) moduleID), s)
         else if truthy (mapGet s (mockRegistry s) moduleID)
         then Some (Inr (mapGet s (mockRegistry s) moduleID), s)
         else
           (let registry = (case isolatedMockRegistry s of Some a \<Rightarrow> a | None \<Rightarrow> mockRegistry s)
            in case mockFactories s moduleID of
                 Some mockFactory \<Rightarrow>
                   andThen (callFactory rec ext mockFactory s)
                     (\<lambda>module s1. Some (Inr module, mapSet registry moduleID module s1))
               | None \<Rightarrow>
                   (let manualMockOrStub = getMockModule ext from moduleName
                    in case (if str_truthy manualMockOrStub
                             then resolveModule' ext from manualMockOrStub
                             else resolveModule' ext from (Some moduleName)) of
                         Inl e \<Rightarrow> Some (Inl e, s)
                       | Inr modulePath0 \<Rightarrow>
                           (let isManualMock0 =
                                  (str_truthy manualMockOrStub
                                   \<and> \<not> str_truthy (resolveStubModuleName ext from moduleName));
                                potentialManualMock =
                                  path_join ext [path_dirname ext modulePath0, ''__mocks__'',
                                                 path_basename ext modulePath0];
                                found = (\<not> isManualMock0 \<and> existsSync ext potentialManualMock);
                                isManualMock = (isManualMock0 \<or> found);
                                modulePath = (if found then potentialManualMock else modulePath0)
                            in if isManualMock then
                                 (case newLocalModule modulePath s of
                                    (localModule, s1) \<Rightarrow>
                                      andThen
                                        (loadModule rec ext localModule from (Some moduleName)
                                           modulePath False s1)
                                        (\<lambda>_ s2.
                                           (let s3 = mapSet registry moduleID
                                                       (exports (modules s2 localModule)) s2
                                            in Some (Inr (mapGet s3 registry moduleID), s3))))
                               else
                                 andThen (generateMock rec ext from moduleName s)
                                   (\<lambda>v s2.
                                      (let s3 = mapSet registry moduleID v s2
                                       in Some (Inr (mapGet s3 registry moduleID), s3)))))))"

text \<open>
  \<open>requireModuleOrMock\<close>. The handler appends the hint of
  \<open>findSiblingsWithFileExtension\<close> to an error whose code is \<open>MODULE_NOT_FOUND\<close> and
  throws the error again.
\<close>

fun appendSiblings :: "ext \<Rightarrow> string \<Rightarrow> string \<Rightarrow> error \<Rightarrow> error" where
  "appendSiblings ext from moduleName (ModuleNotFound m) =
     ModuleNotFound (m @ findSiblingsWithFileExtension ext from moduleName)"
| "appendSiblings ext from moduleName e = e"

definition rethrow :: "(error \<Rightarrow> error) \<Rightarrow> 'a res option \<Rightarrow> 'a res option" where
  "rethrow h m =
     (case m of
        None \<Rightarrow> None
      | Some (Inl e, s) \<Rightarrow> Some (Inl (h e), s)
      | Some (Inr v, s) \<Rightarrow> Some (Inr v, s))"

definition requireModuleOrMock :: "rec \<Rightarrow> ext \<Rightarrow> string \<Rightarrow> string \<Rightarrow> runtime \<Rightarrow> jsval res option" where
  "requireModuleOrMock rec ext from moduleName s =
     rethrow (appendSiblings ext from moduleName)
       (case shouldMock ext from moduleName s of
          (Inl e, s1) \<Rightarrow> Some (Inl e, s1)
        | (Inr b, s1) \<Rightarrow>
            if b then requireMock rec ext from moduleName s1
            else requireModule rec ext from (Some moduleName) False False s1)"

text \<open>\<open>isolateModules\<close>; \<open>fn\<close> is user code bound to the module that called.\<close>

definition isolateModules :: "rec \<Rightarrow> ext \<Rightarrow> ctx \<Rightarrow> stmt list \<Rightarrow> runtime \<Rightarrow> jsval res option" where
  "isolateModules rec ext c fn s =
     (if isolatedModuleRegistry s \<noteq> None \<or> isolatedMockRegistry s \<noteq> None
      then Some (Inl NestedIsolation, s)
      else
        (case newModuleMap s of
           (a, s1) \<Rightarrow>
             (case newMockMap (s1\<lparr>isolatedModuleRegistry := Some a\<rparr>) of
                (b, s2) \<Rightarrow>
                  andThen (execStmts rec ext c fn JUndefined (s2\<lparr>isolatedMockRegistry := Some b\<rparr>))
                    (\<lambda>_ s3.
                       Some (Inr JUndefined,
                             s3\<lparr>isolatedModuleRegistry := None, isolatedMockRegistry := None\<rparr>)))))"

subsection \<open>Tying the knot\<close>

text \<open>
  \<open>run n\<close> performs a call of user code into the runtime with \<open>n\<close> nested levels of
  such calls available; \<open>None\<close> says that more levels were needed.
\<close>

fun run :: "nat \<Rightarrow> ext \<Rightarrow> call \<Rightarrow> runtime \<Rightarrow> jsval res option" where
  "run 0 ext c s = None"
| "run (Suc n) ext (CRequireModuleOrMock from moduleName) s =
     requireModuleOrMock (run n ext) ext from moduleName s"
| "run (Suc n) ext (CRequireInternalModule from moduleName) s =
     requireInternalModule (run n ext) ext from (Some moduleName) s"
| "run (Suc n) ext (CRequireActual from moduleName) s =
     requireActual (run n ext) ext from moduleName s"
| "run (Suc n) ext (CRequireMock from moduleName) s =
     requireMock (run n ext) ext from moduleName s"
| "run (Suc n) ext (CGenerateMock from moduleName) s =
     generateMock (run n ext) ext from moduleName s"
| "run (Suc n) ext (CIsolateModules c fn) s =
     isolateModules (run n ext) ext c fn s"

subsection \<open>The constructor, and a small project to run\<close>

text \<open>
  The runtime the constructor leaves when \<open>config.setupFiles\<close> is empty; the three
  \<open>new Map()\<close> are the first map objects of the heaps.
\<close>

definition emptyModule :: module where
  "emptyModule = \<lparr>mod_id = [], filename = [], exports = JUndefined, loaded = False,
                   children = [], paths = []\<rparr>"

definition newRuntime :: "bool \<Rightarrow> runtime" where
  "newRuntime automock =
     \<lparr>currentlyExecutingModulePath = [],
      isCurrentlyExecutingManualMock = None,
      explicitShouldMock = Map.empty,
      transitiveShouldMock = Map.empty,
      mockFactories = Map.empty,
      mockMetaDataCache = Map.empty,
      mockRegistry = 0,
      isolatedMockRegistry = None,
      moduleRegistry = 1,
      isolatedModuleRegistry = None,
      internalModuleRegistry = 0,
      needsCoverageMapped = {},
      shouldAutoMock = automock,
      shouldMockModuleCache = Map.empty,
      shouldUnmockTransitiveDependenciesCache = Map.empty,
      sourceMapRegistry = Map.empty,
      virtualMocks = Map.empty,
      moduleMaps = (\<lambda>a. Map.empty),
      nextModuleMap = 2,
      mockMaps = (\<lambda>a. Map.empty),
      nextMockMap = 1,
      modules = (\<lambda>a. emptyModule),
      nextModule = 0,
      nextObject = 0,
      exitCode = None,
      consoleErrors = []\<rparr>"

text \<open>
  A project given by its files: the module \<open>x\<close> is the file \<open>/x\<close>, its ID is its
  name, \<open>fs\<close> is the only core module, there are no manual mocks, every object has
  metadata and every generated mock is a new object.
\<close>

definition project :: "(string \<rightharpoonup> stmt list) \<Rightarrow> ext" where
  "project files =
     \<lparr>getModuleID = (\<lambda>vm from moduleName. case moduleName of None \<Rightarrow> from | Some n \<Rightarrow> n),
      getModule = (\<lambda>n. None),
      getMockModule = (\<lambda>from n. None),
      isCoreModule = (\<lambda>n. n = ''fs''),
      resolveModule = (\<lambda>from n. if files (CHR ''/'' # n) = None
                                 then Inl (ModuleNotFound n) else Inr (CHR ''/'' # n)),
      resolveStubModuleName = (\<lambda>from n. None),
      getModulePath = (\<lambda>from n. CHR ''/'' # n),
      getModulePaths = (\<lambda>d. []),
      transform = (\<lambda>f internal. case files f of
                      None \<Rightarrow> Inl (Thrown f)
                    | Some code \<Rightarrow> Inr \<lparr>script = code, sourceMapPath = None, mapCoverage = False\<rparr>),
      transformJson = (\<lambda>f internal. Inr []),
      env_global = Some Map.empty,
      runScript = (\<lambda>code. Some code),
      getMetadata = (\<lambda>v. v),
      generateFromMetadata = (\<lambda>md. None),
      jsonParse = (\<lambda>t. Inr None),
      hostRequire = (\<lambda>n. Inr (JStr n)),
      existsSync = (\<lambda>f. False),
      path_sep = ''/'',
      path_delimiter = '':'',
      path_extname = (\<lambda>f. []),
      path_dirname = (\<lambda>f. ''/''),
      path_basename = (\<lambda>f. f),
      path_join = concat,
      extraGlobals = [],
      unmockList = None,
      findSiblingsWithFileExtension = (\<lambda>from n. [])\<rparr>"

subsection \<open>Predicates of the statements\<close>

text \<open>
  User code that never calls \<open>jest.resetModules()\<close>, neither itself nor in a mock
  factory or a callback of \<open>isolateModules\<close> that it hands over.
\<close>

fun noReset :: "stmt \<Rightarrow> bool" where
  "noReset JestResetModules = False"
| "noReset (JestMock moduleName (Some (body, result)) virtual) = list_all noReset body"
| "noReset (JestIsolateModules fn) = list_all noReset fn"
| "noReset (TryCatch body handler) = (list_all noReset body \<and> list_all noReset handler)"
| "noReset (TryFinally body finalizer) = (list_all noReset body \<and> list_all noReset finalizer)"
| "noReset x = True"

text \<open>User code without a \<open>try\<close> statement, in the same sense.\<close>

fun noTry :: "stmt \<Rightarrow> bool" where
  "noTry (TryCatch body handler) = False"
| "noTry (TryFinally body finalizer) = False"
| "noTry (JestMock moduleName (Some (body, result)) virtual) = list_all noTry body"
| "noTry (JestIsolateModules fn) = list_all noTry fn"
| "noTry x = True"

text \<open>The same of the mock factories a runtime holds, and of the code of the files.\<close>

definition factoriesOk :: "runtime \<Rightarrow> bool" where
  "factoriesOk s = (\<forall>k f. mockFactories s k = Some f \<longrightarrow> list_all noReset (fac_body f))"

definition scriptsOk :: "ext \<Rightarrow> bool" where
  "scriptsOk ext =
     (\<forall>f internal t w. transform ext f internal = Inr t \<longrightarrow> runScript ext (script t) = Some w
        \<longrightarrow> list_all noReset w)"

text \<open>And the same for \<open>noTry\<close>.\<close>

definition factoriesNoTry :: "runtime \<Rightarrow> bool" where
  "factoriesNoTry s = (\<forall>k f. mockFactories s k = Some f \<longrightarrow> list_all noTry (fac_body f))"

definition scriptsNoTry :: "ext \<Rightarrow> bool" where
  "scriptsNoTry ext =
     (\<forall>f internal t w. transform ext f internal = Inr t \<longrightarrow> runScript ext (script t) = Some w
        \<longrightarrow> list_all noTry w)"

text \<open>The user code a call hands over: the callback of \<open>isolateModules\<close>.\<close>

fun callCode :: "call \<Rightarrow> stmt list" where
  "callCode (CIsolateModules c fn) = fn"
| "callCode c = []"

text \<open>
  The map objects the constructor created are allocated, and the internal registry is
  not the module registry.
\<close>

definition registriesAllocated :: "runtime \<Rightarrow> bool" where
  "registriesAllocated s =
     (moduleRegistry s < nextModuleMap s \<and> mockRegistry s < nextMockMap s
      \<and> internalModuleRegistry s < nextModuleMap s
      \<and> internalModuleRegistry s \<noteq> moduleRegistry s)"

text \<open>
  A runtime inside the scope of \<open>isolateModules\<close>: both isolated registries are there,
  and they are allocated map objects other than the plain registries.
\<close>

definition isolating :: "runtime \<Rightarrow> bool" where
  "isolating s =
     (isolatedModuleRegistry s \<noteq> None \<and> isolatedMockRegistry s \<noteq> None
      \<and> moduleRegistry s < nextModuleMap s \<and> mockRegistry s < nextMockMap s
      \<and> internalModuleRegistry s < nextModuleMap s
      \<and> internalModuleRegistry s \<noteq> moduleRegistry s
      \<and> (\<forall>a. isolatedModuleRegistry s = Some a \<longrightarrow> a < nextModuleMap s \<and> a \<noteq> moduleRegistry s)
      \<and> (\<forall>a. isolatedMockRegistry s = Some a \<longrightarrow> a < nextMockMap s \<and> a \<noteq> mockRegistry s)
      \<and> factoriesOk s)"

text \<open>
  What a call made inside the scope may change, whether it returns or throws: it leaves
  the isolated and the internal registry field as they are and writes to no map object
  that existed before, except the isolated and the internal registry.
\<close>

definition isoFrame :: "runtime \<Rightarrow> runtime \<Rightarrow> bool" where
  "isoFrame s s' =
     (isolating s'
      \<and> isolatedModuleRegistry s' = isolatedModuleRegistry s
      \<and> isolatedMockRegistry s' = isolatedMockRegistry s
      \<and> internalModuleRegistry s' = internalModuleRegistry s
      \<and> nextModuleMap s \<le> nextModuleMap s'
      \<and> nextMockMap s \<le> nextMockMap s'
      \<and> (\<forall>a. a < nextModuleMap s \<and> Some a \<noteq> isolatedModuleRegistry s
              \<and> a \<noteq> internalModuleRegistry s \<longrightarrow> moduleMaps s' a = moduleMaps s a)
      \<and> (\<forall>a. a < nextMockMap s \<and> Some a \<noteq> isolatedMockRegistry s
              \<longrightarrow> mockMaps s' a = mockMaps s a))"

definition recIso :: "rec \<Rightarrow> bool" where
  "recIso rec = (\<forall>c s r s'. isolating s \<longrightarrow> rec c s = Some (r, s') \<longrightarrow> isoFrame s s')"

text \<open>
  What a call that returns leaves when no code has a \<open>try\<close> statement: the module
  registry and the mock registry are the map objects they were, and the mock factories
  are still without \<open>try\<close> statement.
\<close>

definition kept :: "runtime \<Rightarrow> runtime \<Rightarrow> bool" where
  "kept s s' =
     (moduleRegistry s' = moduleRegistry s \<and> mockRegistry s' = mockRegistry s
      \<and> factoriesNoTry s')"

definition recKept :: "rec \<Rightarrow> bool" where
  "recKept rec =
     (\<forall>c s v s'. factoriesNoTry s \<longrightarrow> list_all noTry (callCode c) \<longrightarrow>
        rec c s = Some (Inr v, s') \<longrightarrow> kept s s')"

text \<open>Two runtimes that agree on the registry fields and on the heaps of map objects.\<close>

definition sameRegs :: "runtime \<Rightarrow> runtime \<Rightarrow> bool" where
  "sameRegs s s' =
     (isolatedModuleRegistry s' = isolatedModuleRegistry s
      \<and> isolatedMockRegistry s' = isolatedMockRegistry s
      \<and> moduleRegistry s' = moduleRegistry s
      \<and> mockRegistry s' = mockRegistry s
      \<and> internalModuleRegistry s' = internalModuleRegistry s
      \<and> nextModuleMap s' = nextModuleMap s
      \<and> nextMockMap s' = nextMockMap s
      \<and> moduleMaps s' = moduleMaps s
      \<and> mockMaps s' = mockMaps s
      \<and> (factoriesOk s \<longrightarrow> factoriesOk s'))"

text \<open>A project of two files, \<open>/a\<close> requiring \<open>b\<close>.\<close>

definition twoFiles :: ext where
  "twoFiles = project [''/a'' \<mapsto> [Require ''b'', SetExports NewObject],
                       ''/b'' \<mapsto> [SetExports (Lit (JNum 1))]]"

text \<open>
  User code that requires modules, assigns \<open>module.exports\<close>, throws, generates
  mocks and calls \<open>isolateModules\<close> with a callback of the same kind: it calls no
  mutator of the \<open>jest\<close> object, does not call \<open>resetModules\<close> and has no
  \<open>try\<close> statement.
\<close>

fun pureStmt :: "stmt \<Rightarrow> bool" where
  "pureStmt (Require moduleName) = True"
| "pureStmt (RequireActual moduleName) = True"
| "pureStmt (RequireMock moduleName) = True"
| "pureStmt (SetExports e) = True"
| "pureStmt (Throw e) = True"
| "pureStmt (JestGenMockFromModule moduleName) = True"
| "pureStmt (JestIsolateModules fn) = list_all pureStmt fn"
| "pureStmt x = False"

text \<open>
  The same of the mock factories a runtime holds.
\<close>

definition factoriesPure :: "runtime \<Rightarrow> bool" where
  "factoriesPure s = (\<forall>k f. mockFactories s k = Some f \<longrightarrow> list_all pureStmt (fac_body f))"




text \<open>
  What a call made by such code may change of the policy inputs: only the two caches of
  \<open>_shouldMock\<close>, which grow; a key new in the cache of transitive unmocks belongs to a
  module ID that was not in the cache of decisions.
\<close>

definition policyGrown :: "ext \<Rightarrow> runtime \<Rightarrow> runtime \<Rightarrow> bool" where
  "policyGrown ext s s' =
     (explicitShouldMock s' = explicitShouldMock s
      \<and> shouldAutoMock s' = shouldAutoMock s
      \<and> virtualMocks s' = virtualMocks s
      \<and> mockFactories s' = mockFactories s
      \<and> (\<forall>k b. shouldMockModuleCache s k = Some b \<longrightarrow> shouldMockModuleCache s' k = Some b)
      \<and> (\<forall>key. shouldUnmockTransitiveDependenciesCache s key = Some True \<longrightarrow>
                 shouldUnmockTransitiveDependenciesCache s' key = Some True)
      \<and> (\<forall>key. shouldUnmockTransitiveDependenciesCache s' key = Some True \<longrightarrow>
                 shouldUnmockTransitiveDependenciesCache s key = Some True
                 \<or> (\<exists>f n. key = f @ path_delimiter ext @ getModuleID ext (virtualMocks s) f (Some n)
                          \<and> shouldMockModuleCache s (getModuleID ext (virtualMocks s) f (Some n)) = None)))"

text \<open>
  And of the registries: the registry fields stay, and the module registries that exist
  keep their entries.
\<close>

definition registriesGrown :: "runtime \<Rightarrow> runtime \<Rightarrow> bool" where
  "registriesGrown s s' =
     (isolatedModuleRegistry s' = isolatedModuleRegistry s
      \<and> isolatedMockRegistry s' = isolatedMockRegistry s
      \<and> moduleRegistry s' = moduleRegistry s
      \<and> mockRegistry s' = mockRegistry s
      \<and> internalModuleRegistry s' = internalModuleRegistry s
      \<and> nextModuleMap s \<le> nextModuleMap s'
      \<and> (\<forall>a k m. a < nextModuleMap s \<longrightarrow> moduleMaps s a k = Some m \<longrightarrow> moduleMaps s' a k = Some m))"

definition grown :: "ext \<Rightarrow> runtime \<Rightarrow> runtime \<Rightarrow> bool" where
  "grown ext s s' = (policyGrown ext s s' \<and> registriesGrown s s')"

text \<open>
  Both, and the pair of the currently executing module and manual mock is as before.
\<close>

definition stable :: "ext \<Rightarrow> runtime \<Rightarrow> runtime \<Rightarrow> bool" where
  "stable ext s s' =
     (grown ext s s'
      \<and> currentlyExecutingModulePath s' = currentlyExecutingModulePath s
      \<and> isCurrentlyExecutingManualMock s' = isCurrentlyExecutingManualMock s)"





text \<open>
  A module map object \<open>a\<close> and a mock map object \<open>b\<close> that no registry field
  points to, and what a call leaves of them.
\<close>

definition detached :: "nat \<Rightarrow> nat \<Rightarrow> runtime \<Rightarrow> bool" where
  "detached a b s =
     (a < nextModuleMap s \<and> a \<noteq> moduleRegistry s \<and> a \<noteq> internalModuleRegistry s
      \<and> isolatedModuleRegistry s \<noteq> Some a
      \<and> b < nextMockMap s \<and> b \<noteq> mockRegistry s \<and> isolatedMockRegistry s \<noteq> Some b)"

definition untouched :: "nat \<Rightarrow> nat \<Rightarrow> runtime \<Rightarrow> runtime \<Rightarrow> bool" where
  "untouched a b s s' =
     (detached a b s' \<and> moduleMaps s' a = moduleMaps s a \<and> mockMaps s' b = mockMaps s b)"

definition recUntouched :: "rec \<Rightarrow> bool" where
  "recUntouched rec =
     (\<forall>a b c s r s'. detached a b s \<longrightarrow> rec c s = Some (r, s') \<longrightarrow> untouched a b s s')"

text \<open>
  The module registry and the mock registry are allocated map objects of their own, not
  the internal and not an isolated registry.
\<close>

definition registriesSeparate :: "runtime \<Rightarrow> bool" where
  "registriesSeparate s =
     (moduleRegistry s < nextModuleMap s \<and> mockRegistry s < nextMockMap s
      \<and> moduleRegistry s \<noteq> internalModuleRegistry s
      \<and> isolatedModuleRegistry s \<noteq> Some (moduleRegistry s)
      \<and> isolatedMockRegistry s \<noteq> Some (mockRegistry s))"

text \<open>
  A project with a module \<open>/thrower\<close> that throws while it is evaluated, and a module
  \<open>/a\<close> that catches the error of generating a mock from it.
\<close>

definition throwerProject :: ext where
  "throwerProject =
     project [''/b'' \<mapsto> [SetExports (Lit (JNum 1))],
              ''/thrower'' \<mapsto> [Throw (Thrown ''boom'')],
              ''/a'' \<mapsto> [TryCatch [JestGenMockFromModule ''thrower''] [], SetExports NewObject]]"


text \<open>A project with a module \<open>/c\<close> that calls \<open>jest.resetModules()\<close>.\<close>

definition resetProject :: ext where
  "resetProject =
     project [''/b'' \<mapsto> [SetExports (Lit (JNum 1))], ''/c'' \<mapsto> [JestResetModules]]"

section \<open>Properties\<close>

lemmas heap_defs =
  newObject_def newModule_def newModuleMap_def newMockMap_def newLocalModule_def
  mapGet_def mapSet_def moduleMapSet_def setExports_def getProperty_def

lemmas method_defs =
  requireModuleOrMock_def requireModule_def requireActual_def requireInternalModule_def
  requireMock_def generateMock_def loadModule_def execModule_def isolateModules_def
  callFactory_def shouldMock_def resolveModule'_def requireCoreModule_def setMock_def
  resetModules_def mock_def unmock_def deepUnmock_def enableAutomock_def disableAutomock_def
  logFormattedReferenceError_def NODE_MODULES_def unmockListTest_def andThen_def rethrow_def

lemmas sample_defs = project_def newRuntime_def emptyModule_def

subsection \<open>The executor\<close>




text \<open>
  C1, as the code has it. When \<open>_execModule\<close> returns normally, having found the
  environment global null or having obtained a wrapper from the script runner, the
  currently executing module path and the currently executing manual mock are what they
  were before the call, whatever the evaluated code and the calls it made did to them.
  Nothing is restored on a throw.
\<close>

theorem execModule_restores_on_return:
  assumes "execModule rec ext localModule isInternalModule from s = Some (Inr (), s')"
    and "env_global ext = None \<or>
         (\<exists>transformedFile wrapper.
            transform ext (filename (modules s localModule)) isInternalModule = Inr transformedFile
            \<and> runScript ext (script transformedFile) = Some wrapper)"
  shows "currentlyExecutingModulePath s' = currentlyExecutingModulePath s
         \<and> isCurrentlyExecutingManualMock s' = isCurrentlyExecutingManualMock s"
  using assms
  by (auto simp: execModule_def andThen_def Let_def
           split: option.splits sum.splits prod.splits if_splits)

theorem execModule_restores_on_return_witness:
  "(\<exists>s'. execModule (run 0 (project [''/b'' \<mapsto> [SetExports NewObject]]))
           (project [''/b'' \<mapsto> [SetExports NewObject]]) 0 False None
           ((snd (newLocalModule ''/b'' (newRuntime False)))
              \<lparr>currentlyExecutingModulePath := ''/t'',
               isCurrentlyExecutingManualMock := Some ''/m''\<rparr>) = Some (Inr (), s')
         \<and> currentlyExecutingModulePath s' = ''/t''
         \<and> isCurrentlyExecutingManualMock s' = Some ''/m''
         \<and> exports (modules s' 0) = JObj 1)"
proof -
  let ?E = "project [''/b'' \<mapsto> [SetExports NewObject]]"
  let ?S = "(snd (newLocalModule ''/b'' (newRuntime False)))
              \<lparr>currentlyExecutingModulePath := ''/t'',
               isCurrentlyExecutingManualMock := Some ''/m''\<rparr>"
  have "\<exists>s'. execModule (run 0 ?E) ?E 0 False None ?S = Some (Inr (), s')
             \<and> exports (modules s' 0) = JObj 1"
    by (simp add: method_defs heap_defs sample_defs Let_def)
  then obtain s' where h: "execModule (run 0 ?E) ?E 0 False None ?S = Some (Inr (), s')"
    and e: "exports (modules s' 0) = JObj 1"
    by blast
  have g: "env_global ?E = None \<or>
           (\<exists>transformedFile wrapper.
              transform ?E (filename (modules ?S 0)) False = Inr transformedFile
              \<and> runScript ?E (script transformedFile) = Some wrapper)"
    by (simp add: heap_defs sample_defs)
  from execModule_restores_on_return [OF h g] h e show ?thesis
    by simp
qed

text \<open>
  C1 fails as stated: a module whose code throws leaves both fields at the file name of
  the module, where they were the empty string and \<open>null\<close> before the call.
\<close>

theorem execModule_throw_not_restored:
  "map_option fst
     (execModule (run 0 (project [''/a'' \<mapsto> [Throw (Thrown ''boom'')]]))
        (project [''/a'' \<mapsto> [Throw (Thrown ''boom'')]]) 0 False None
        (snd (newLocalModule ''/a'' (newRuntime False)))) = Some (Inl (Thrown ''boom''))
   \<and> map_option (currentlyExecutingModulePath \<circ> snd)
     (execModule (run 0 (project [''/a'' \<mapsto> [Throw (Thrown ''boom'')]]))
        (project [''/a'' \<mapsto> [Throw (Thrown ''boom'')]]) 0 False None
        (snd (newLocalModule ''/a'' (newRuntime False)))) = Some ''/a''
   \<and> map_option (isCurrentlyExecutingManualMock \<circ> snd)
     (execModule (run 0 (project [''/a'' \<mapsto> [Throw (Thrown ''boom'')]]))
        (project [''/a'' \<mapsto> [Throw (Thrown ''boom'')]]) 0 False None
        (snd (newLocalModule ''/a'' (newRuntime False)))) = Some (Some ''/a'')
   \<and> currentlyExecutingModulePath (snd (newLocalModule ''/a'' (newRuntime False))) = []
   \<and> isCurrentlyExecutingManualMock (snd (newLocalModule ''/a'' (newRuntime False))) = None"
  by (simp add: method_defs heap_defs sample_defs Let_def)

text \<open>
  C3, as the code has it. Invoked while the environment global is null, \<open>_execModule\<close>
  returns without throwing and leaves the runtime as it was: nothing is logged and the
  exit code is not set. The reference error is logged and the exit code set to 1 when
  the global is there and the script runner of the environment returns null for the
  transformed script; the executor then returns without throwing as well.
\<close>

theorem execModule_torn_down:
  "(env_global ext = None \<longrightarrow>
      execModule rec ext localModule isInternalModule from s = Some (Inr (), s))
   \<and> (env_global ext \<noteq> None
        \<and> transform ext (filename (modules s localModule)) isInternalModule = Inr transformedFile
        \<and> runScript ext (script transformedFile) = None \<longrightarrow>
      (\<exists>s'. execModule rec ext localModule isInternalModule from s = Some (Inr (), s')
            \<and> exitCode s' = Some 1
            \<and> consoleErrors s' = consoleErrors s @
                [''You are trying to `import` a file after the Jest environment has been torn down.'']))"
  by (auto simp: execModule_def logFormattedReferenceError_def Let_def)

theorem execModule_torn_down_witness:
  "env_global ((project Map.empty)\<lparr>env_global := None\<rparr>) = None
   \<and> execModule (run 0 ((project Map.empty)\<lparr>env_global := None\<rparr>))
        ((project Map.empty)\<lparr>env_global := None\<rparr>) 0 False None
        (snd (newLocalModule ''/a'' (newRuntime False)))
      = Some (Inr (), snd (newLocalModule ''/a'' (newRuntime False)))
   \<and> env_global ((project [''/a'' \<mapsto> []])\<lparr>runScript := (\<lambda>code. None)\<rparr>) \<noteq> None
   \<and> runScript ((project [''/a'' \<mapsto> []])\<lparr>runScript := (\<lambda>code. None)\<rparr>) [] = None
   \<and> (\<exists>s'. execModule (run 0 ((project [''/a'' \<mapsto> []])\<lparr>runScript := (\<lambda>code. None)\<rparr>))
              ((project [''/a'' \<mapsto> []])\<lparr>runScript := (\<lambda>code. None)\<rparr>) 0 False None
              (snd (newLocalModule ''/a'' (newRuntime False))) = Some (Inr (), s')
            \<and> exitCode s' = Some 1
            \<and> consoleErrors s' =
                [''You are trying to `import` a file after the Jest environment has been torn down.''])"
proof -
  let ?E1 = "(project Map.empty)\<lparr>env_global := None\<rparr>"
  let ?E2 = "(project [''/a'' \<mapsto> []])\<lparr>runScript := (\<lambda>code. None)\<rparr>"
  let ?S = "snd (newLocalModule ''/a'' (newRuntime False))"
  let ?T = "\<lparr>script = [], sourceMapPath = None, mapCoverage = False\<rparr>"
  have a: "env_global ?E1 = None"
    by (simp add: sample_defs)
  have b: "env_global ?E2 \<noteq> None \<and> transform ?E2 (filename (modules ?S 0)) False = Inr ?T
           \<and> runScript ?E2 (script ?T) = None"
    by (simp add: sample_defs heap_defs)
  have c: "consoleErrors ?S = []"
    by (simp add: sample_defs heap_defs)
  from execModule_torn_down [of ?E1 "run 0 ?E1" 0 False None ?S ?T] a
       execModule_torn_down [of ?E2 "run 0 ?E2" 0 False None ?S ?T] b c
  show ?thesis
    by simp
qed

text \<open>
  C3 fails as stated: with the environment global null the executor returns without
  having logged anything and without having set the exit code.
\<close>

theorem execModule_null_global_silent:
  "execModule (run 0 ((project Map.empty)\<lparr>env_global := None\<rparr>))
     ((project Map.empty)\<lparr>env_global := None\<rparr>) 0 False None
     (snd (newLocalModule ''/a'' (newRuntime False)))
   = Some (Inr (), snd (newLocalModule ''/a'' (newRuntime False)))
   \<and> consoleErrors (snd (newLocalModule ''/a'' (newRuntime False))) = []
   \<and> exitCode (snd (newLocalModule ''/a'' (newRuntime False))) = None"
  by (simp add: method_defs heap_defs sample_defs Let_def)



subsection \<open>Leaving \<open>isolateModules\<close>\<close>

text \<open>
  C2, as the code has it. Every call \<open>isolateModules(fn)\<close> that returns normally leaves
  both isolated registries absent. Nothing is torn down when \<open>fn\<close> throws.
\<close>

theorem isolateModules_discards_on_return:
  assumes "isolateModules rec ext c fn s = Some (Inr v, s')"
  shows "isolatedModuleRegistry s' = None \<and> isolatedMockRegistry s' = None"
  using assms
  by (auto simp: isolateModules_def andThen_def newModuleMap_def newMockMap_def
           split: option.splits sum.splits prod.splits if_splits)

theorem isolateModules_discards_on_return_witness:
  "\<exists>s'. isolateModules (run 0 (project Map.empty)) (project Map.empty)
          \<lparr>ctx_filename = ''/t'', ctx_module = 0, ctx_internal = False\<rparr>
          [JestDisableAutomock] (newRuntime True) = Some (Inr JUndefined, s')
        \<and> isolatedModuleRegistry s' = None \<and> isolatedMockRegistry s' = None
        \<and> \<not> shouldAutoMock s'"
proof -
  let ?E = "project Map.empty"
  let ?c = "\<lparr>ctx_filename = ''/t'', ctx_module = 0, ctx_internal = False\<rparr>"
  have "\<exists>s'. isolateModules (run 0 ?E) ?E ?c [JestDisableAutomock] (newRuntime True)
               = Some (Inr JUndefined, s') \<and> \<not> shouldAutoMock s'"
    by (simp add: method_defs heap_defs sample_defs)
  then obtain s' where
    h: "isolateModules (run 0 ?E) ?E ?c [JestDisableAutomock] (newRuntime True)
          = Some (Inr JUndefined, s')"
    and a: "\<not> shouldAutoMock s'"
    by blast
  from isolateModules_discards_on_return [OF h] h a show ?thesis
    by simp
qed

text \<open>
  C2 fails as stated: when \<open>fn\<close> throws, the two maps that \<open>isolateModules\<close> created
  are still the isolated registries after the call.
\<close>

theorem isolateModules_throw_not_discarded:
  "map_option fst
     (isolateModules (run 0 (project Map.empty)) (project Map.empty)
        \<lparr>ctx_filename = ''/t'', ctx_module = 0, ctx_internal = False\<rparr>
        [Throw (Thrown ''boom'')] (newRuntime False)) = Some (Inl (Thrown ''boom''))
   \<and> map_option (isolatedModuleRegistry \<circ> snd)
     (isolateModules (run 0 (project Map.empty)) (project Map.empty)
        \<lparr>ctx_filename = ''/t'', ctx_module = 0, ctx_internal = False\<rparr>
        [Throw (Thrown ''boom'')] (newRuntime False)) = Some (Some 2)
   \<and> map_option (isolatedMockRegistry \<circ> snd)
     (isolateModules (run 0 (project Map.empty)) (project Map.empty)
        \<lparr>ctx_filename = ''/t'', ctx_module = 0, ctx_internal = False\<rparr>
        [Throw (Thrown ''boom'')] (newRuntime False)) = Some (Some 1)"
  by (simp add: method_defs heap_defs sample_defs)

subsection \<open>The resolution policy\<close>



text \<open>
  C9, as the code has it. For a core module whose ID has no entry \<open>true\<close> in the
  explicit mock map, \<open>_shouldMock\<close> answers \<open>false\<close> and changes nothing, and
  \<open>requireModuleOrMock\<close> delivers what \<open>_requireCoreModule\<close> delivers. A core module
  that was mocked explicitly goes through the mock path.
\<close>

theorem core_module_not_mocked:
  assumes "isCoreModule ext moduleName" and "moduleName \<noteq> []"
    and "explicitShouldMock s (getModuleID ext (virtualMocks s) from (Some moduleName)) \<noteq> Some True"
  shows "shouldMock ext from moduleName s = (Inr False, s)
         \<and> requireModuleOrMock rec ext from moduleName s
           = rethrow (appendSiblings ext from moduleName)
               (Some (requireCoreModule ext moduleName, s))"
proof -
  have a: "shouldMock ext from moduleName s = (Inr False, s)"
    using assms by (auto simp: shouldMock_def Let_def split: option.splits)
  have b: "requireModule rec ext from (Some moduleName) False False s
             = Some (requireCoreModule ext moduleName, s)"
    using assms(1,2) by (simp add: requireModule_def Let_def)
  from a b show ?thesis
    by (simp add: requireModuleOrMock_def)
qed

theorem core_module_not_mocked_witness:
  "isCoreModule (project Map.empty) ''fs''
   \<and> explicitShouldMock (newRuntime True) ''fs'' = None
   \<and> shouldMock (project Map.empty) ''/t'' ''fs'' (newRuntime True) = (Inr False, newRuntime True)
   \<and> requireModuleOrMock (run 0 (project Map.empty)) (project Map.empty) ''/t'' ''fs''
        (newRuntime True) = Some (Inr (JStr ''fs''), newRuntime True)"
proof -
  let ?E = "project Map.empty"
  have a: "isCoreModule ?E ''fs''"
    by (simp add: sample_defs)
  have b: "''fs'' \<noteq> []"
    by simp
  have c: "explicitShouldMock (newRuntime True)
             (getModuleID ?E (virtualMocks (newRuntime True)) ''/t'' (Some ''fs'')) \<noteq> Some True"
    by (simp add: sample_defs)
  have d: "explicitShouldMock (newRuntime True) ''fs'' = None"
    by (simp add: sample_defs)
  have e: "rethrow (appendSiblings ?E ''/t'' ''fs'') (Some (requireCoreModule ?E ''fs'', newRuntime True))
             = Some (Inr (JStr ''fs''), newRuntime True)"
    by (simp add: rethrow_def requireCoreModule_def project_def)
  from core_module_not_mocked [OF a b c, of "run 0 ?E"] a d e show ?thesis
    by simp
qed

text \<open>
  C9 fails as stated: after \<open>jest.mock('fs', factory)\<close> the policy answers \<open>true\<close> for
  the core module \<open>fs\<close> and \<open>require('fs')\<close> returns what the factory made, not the
  core module.
\<close>

theorem core_module_explicitly_mocked:
  "isCoreModule (project Map.empty) ''fs''
   \<and> fst (shouldMock (project Map.empty) ''/t'' ''fs''
            (mock (project Map.empty) \<lparr>ctx_filename = ''/t'', ctx_module = 0, ctx_internal = False\<rparr>
               ''fs'' (Some ([], NewObject)) False (newRuntime False))) = Inr True
   \<and> map_option fst
       (requireModuleOrMock (run 0 (project Map.empty)) (project Map.empty) ''/t'' ''fs''
          (mock (project Map.empty) \<lparr>ctx_filename = ''/t'', ctx_module = 0, ctx_internal = False\<rparr>
             ''fs'' (Some ([], NewObject)) False (newRuntime False))) = Some (Inr (JObj 0))
   \<and> requireCoreModule (project Map.empty) ''fs'' = Inr (JStr ''fs'')"
  by (simp add: method_defs heap_defs sample_defs Let_def)

subsection \<open>Mock factories\<close>

text \<open>
  C8, as the code has it. Let \<open>setMock(name, factory)\<close> be called when neither mock
  registry holds a truthy entry for the ID of \<open>name\<close>, and let the first call of the
  factory return \<open>v\<close> and leave the policy inputs and the registry fields as they were.
  Then the first \<open>require\<close> of \<open>name\<close> returns \<open>v\<close> and stores it in the mock
  registry in effect; when \<open>v\<close> is truthy, a further \<open>require\<close> of \<open>name\<close> returns
  the stored \<open>v\<close> and changes nothing, so every later one does, without any user code
  being evaluated; and after \<open>resetModules()\<close> a \<open>require\<close> of \<open>name\<close> calls the
  factory again and returns and stores what that call returns.
\<close>

theorem setMock_factory_cached:
  assumes s1: "s1 = setMock ext from moduleName f virtual s0"
    and moduleID: "moduleID = getModuleID ext (virtualMocks s1) from (Some moduleName)"
    and fresh: "\<not> truthy (mapGet s1 (mockRegistry s1) moduleID)"
               "\<forall>a. isolatedMockRegistry s1 = Some a \<longrightarrow> \<not> truthy (mapGet s1 a moduleID)"
    and first: "callFactory rec ext f s1 = Some (Inr v, s2)"
    and keeps: "virtualMocks s2 = virtualMocks s1"
               "explicitShouldMock s2 moduleID = Some True"
               "mockFactories s2 moduleID = Some f"
               "isolatedMockRegistry s2 = isolatedMockRegistry s1"
               "mockRegistry s2 = mockRegistry s1"
    and t: "t = mapSet (case isolatedMockRegistry s1 of Some a \<Rightarrow> a | None \<Rightarrow> mockRegistry s1)
                  moduleID v s2"
  shows "requireModuleOrMock rec ext from moduleName s1 = Some (Inr v, t)
         \<and> (truthy v \<longrightarrow>
              (\<forall>rec'. requireModuleOrMock rec' ext from moduleName t = Some (Inr v, t)))
         \<and> (\<forall>v' s3. callFactory rec ext f (resetModules t) = Some (Inr v', s3) \<longrightarrow>
              requireModuleOrMock rec ext from moduleName (resetModules t)
                = Some (Inr v', mapSet (mockRegistry t) moduleID v' s3))"
proof -
  have e1: "explicitShouldMock s1 moduleID = Some True"
    and f1: "mockFactories s1 moduleID = Some f"
    using s1 moduleID by (simp_all add: setMock_def Let_def)
  have a: "requireModuleOrMock rec ext from moduleName s1 = Some (Inr v, t)"
    using e1 f1 fresh first t moduleID
    by (auto simp: requireModuleOrMock_def shouldMock_def requireMock_def andThen_def rethrow_def
                   Let_def
             split: option.splits)
  have vt: "virtualMocks t = virtualMocks s1" "explicitShouldMock t moduleID = Some True"
    "mockFactories t moduleID = Some f" "isolatedMockRegistry t = isolatedMockRegistry s1"
    "mockRegistry t = mockRegistry s1"
    using keeps t by (simp_all add: mapSet_def)
  have g: "mapGet t (case isolatedMockRegistry s1 of Some a \<Rightarrow> a | None \<Rightarrow> mockRegistry s1) moduleID = v"
    using t by (simp add: mapSet_def mapGet_def)
  have b: "truthy v \<longrightarrow> (\<forall>rec'. requireModuleOrMock rec' ext from moduleName t = Some (Inr v, t))"
    using vt g moduleID
    by (auto simp: requireModuleOrMock_def shouldMock_def requireMock_def rethrow_def Let_def
             split: option.splits)
  have r: "virtualMocks (resetModules t) = virtualMocks s1"
    "explicitShouldMock (resetModules t) moduleID = Some True"
    "mockFactories (resetModules t) moduleID = Some f"
    "isolatedMockRegistry (resetModules t) = None"
    "mockRegistry (resetModules t) = mockRegistry t"
    "mapGet (resetModules t) (mockRegistry t) moduleID = JUndefined"
    using vt by (simp_all add: resetModules_def mapGet_def)
  have c: "\<forall>v' s3. callFactory rec ext f (resetModules t) = Some (Inr v', s3) \<longrightarrow>
             requireModuleOrMock rec ext from moduleName (resetModules t)
               = Some (Inr v', mapSet (mockRegistry t) moduleID v' s3)"
    using r moduleID
    by (auto simp: requireModuleOrMock_def shouldMock_def requireMock_def andThen_def rethrow_def
                   Let_def)
  from a b c show ?thesis
    by blast
qed

theorem setMock_factory_cached_witness:
  "requireModuleOrMock (run 0 (project Map.empty)) (project Map.empty) ''/t'' ''x''
     (setMock (project Map.empty) ''/t'' ''x''
        \<lparr>fac_ctx = \<lparr>ctx_filename = ''/t'', ctx_module = 0, ctx_internal = False\<rparr>,
         fac_body = [], fac_result = NewObject\<rparr> False (newRuntime False))
   = Some (Inr (JObj 0),
           mapSet 0 ''x'' (JObj 0)
             ((setMock (project Map.empty) ''/t'' ''x''
                 \<lparr>fac_ctx = \<lparr>ctx_filename = ''/t'', ctx_module = 0, ctx_internal = False\<rparr>,
                  fac_body = [], fac_result = NewObject\<rparr> False (newRuntime False))
               \<lparr>nextObject := 1\<rparr>))
   \<and> requireModuleOrMock (run 0 (project Map.empty)) (project Map.empty) ''/t'' ''x''
       (mapSet 0 ''x'' (JObj 0)
          ((setMock (project Map.empty) ''/t'' ''x''
              \<lparr>fac_ctx = \<lparr>ctx_filename = ''/t'', ctx_module = 0, ctx_internal = False\<rparr>,
               fac_body = [], fac_result = NewObject\<rparr> False (newRuntime False))
            \<lparr>nextObject := 1\<rparr>))
     = Some (Inr (JObj 0),
             mapSet 0 ''x'' (JObj 0)
               ((setMock (project Map.empty) ''/t'' ''x''
                   \<lparr>fac_ctx = \<lparr>ctx_filename = ''/t'', ctx_module = 0, ctx_internal = False\<rparr>,
                    fac_body = [], fac_result = NewObject\<rparr> False (newRuntime False))
                 \<lparr>nextObject := 1\<rparr>))
   \<and> map_option fst
       (requireModuleOrMock (run 0 (project Map.empty)) (project Map.empty) ''/t'' ''x''
          (resetModules
             (mapSet 0 ''x'' (JObj 0)
                ((setMock (project Map.empty) ''/t'' ''x''
                    \<lparr>fac_ctx = \<lparr>ctx_filename = ''/t'', ctx_module = 0, ctx_internal = False\<rparr>,
                     fac_body = [], fac_result = NewObject\<rparr> False (newRuntime False))
                  \<lparr>nextObject := 1\<rparr>))))
     = Some (Inr (JObj 1))"
proof -
  let ?E = "project Map.empty"
  let ?f = "\<lparr>fac_ctx = \<lparr>ctx_filename = ''/t'', ctx_module = 0, ctx_internal = False\<rparr>,
            fac_body = [], fac_result = NewObject\<rparr>"
  let ?S1 = "setMock ?E ''/t'' ''x'' ?f False (newRuntime False)"
  let ?S2 = "?S1\<lparr>nextObject := 1\<rparr>"
  let ?T = "mapSet 0 ''x'' (JObj 0) ?S2"
  let ?S3 = "(resetModules ?T)\<lparr>nextObject := 2\<rparr>"
  have moduleID: "''x'' = getModuleID ?E (virtualMocks ?S1) ''/t'' (Some ''x'')"
    by (simp add: sample_defs Let_def)
  have fresh: "\<not> truthy (mapGet ?S1 (mockRegistry ?S1) ''x'')"
    "\<forall>a. isolatedMockRegistry ?S1 = Some a \<longrightarrow> \<not> truthy (mapGet ?S1 a ''x'')"
    by (simp_all add: setMock_def mapGet_def sample_defs Let_def)
  have first: "callFactory (run 0 ?E) ?E ?f ?S1 = Some (Inr (JObj 0), ?S2)"
    by (simp add: callFactory_def andThen_def newObject_def setMock_def sample_defs Let_def)
  have keeps: "virtualMocks ?S2 = virtualMocks ?S1" "explicitShouldMock ?S2 ''x'' = Some True"
    "mockFactories ?S2 ''x'' = Some ?f" "isolatedMockRegistry ?S2 = isolatedMockRegistry ?S1"
    "mockRegistry ?S2 = mockRegistry ?S1"
    by (simp_all add: setMock_def sample_defs Let_def)
  have t: "?T = mapSet (case isolatedMockRegistry ?S1 of Some a \<Rightarrow> a | None \<Rightarrow> mockRegistry ?S1)
                  ''x'' (JObj 0) ?S2"
    by (simp add: setMock_def sample_defs Let_def)
  have again: "callFactory (run 0 ?E) ?E ?f (resetModules ?T) = Some (Inr (JObj 1), ?S3)"
    by (simp add: callFactory_def andThen_def newObject_def setMock_def resetModules_def
                  mapSet_def sample_defs Let_def)
  from setMock_factory_cached [OF refl moduleID fresh first keeps t] again
  show ?thesis
    by simp
qed

text \<open>
  C8 fails as stated: with automock on, \<open>require('b')\<close> stores an automock of \<open>b\<close>;
  after \<open>setMock('b', 42)\<close> the next \<open>require('b')\<close> still returns that automock and
  not what the factory returns.
\<close>

theorem setMock_stale_entry_wins:
  "map_option fst
     (requireModuleOrMock (run 0 (project [''/b'' \<mapsto> []])) (project [''/b'' \<mapsto> []]) ''/t'' ''b''
        (newRuntime True)) = Some (Inr (JObj 2))
   \<and> map_option fst
     (requireModuleOrMock (run 0 (project [''/b'' \<mapsto> []])) (project [''/b'' \<mapsto> []]) ''/t'' ''b''
        (setMock (project [''/b'' \<mapsto> []]) ''/t'' ''b''
           \<lparr>fac_ctx = \<lparr>ctx_filename = ''/t'', ctx_module = 0, ctx_internal = False\<rparr>,
            fac_body = [], fac_result = Lit (JNum 42)\<rparr> False
           (snd (the (requireModuleOrMock (run 0 (project [''/b'' \<mapsto> []]))
                        (project [''/b'' \<mapsto> []]) ''/t'' ''b'' (newRuntime True))))))
     = Some (Inr (JObj 2))
   \<and> map_option fst
     (callFactory (run 0 (project [''/b'' \<mapsto> []])) (project [''/b'' \<mapsto> []])
        \<lparr>fac_ctx = \<lparr>ctx_filename = ''/t'', ctx_module = 0, ctx_internal = False\<rparr>,
         fac_body = [], fac_result = Lit (JNum 42)\<rparr>
        (setMock (project [''/b'' \<mapsto> []]) ''/t'' ''b''
           \<lparr>fac_ctx = \<lparr>ctx_filename = ''/t'', ctx_module = 0, ctx_internal = False\<rparr>,
            fac_body = [], fac_result = Lit (JNum 42)\<rparr> False
           (snd (the (requireModuleOrMock (run 0 (project [''/b'' \<mapsto> []]))
                        (project [''/b'' \<mapsto> []]) ''/t'' ''b'' (newRuntime True))))))
     = Some (Inr (JNum 42))"
  by (simp add: method_defs heap_defs sample_defs Let_def)

subsection \<open>Sequencing, handlers and sequences of operations\<close>

lemma andThen_InrE:
  assumes "andThen m f = Some (Inr v, s')"
  obtains u s1 where "m = Some (Inr u, s1)" and "f u s1 = Some (Inr v, s')"
  using assms by (auto simp: andThen_def split: option.splits sum.splits prod.splits)

lemma andThen_SomeE:
  assumes "andThen m f = Some (r, s')"
  obtains (thrown) e where "m = Some (Inl e, s')" and "r = Inl e"
    | (returned) u s1 where "m = Some (Inr u, s1)" and "f u s1 = Some (r, s')"
  using assms by (auto simp: andThen_def split: option.splits sum.splits prod.splits)

lemma finallyDo_SomeE:
  assumes "finallyDo m f = Some (r, s')"
  obtains q s1 p where "m = Some (q, s1)" and "f s1 = Some (p, s')"
  using assms by (auto simp: finallyDo_def split: option.splits sum.splits prod.splits)

lemma catchError_SomeE:
  assumes "catchError m h = Some (r, s')"
  obtains (caught) e s1 where "m = Some (Inl e, s1)" and "h e s1 = Some (r, s')"
    | (returned) v where "m = Some (Inr v, s')" and "r = Inr v"
  using assms by (auto simp: catchError_def split: option.splits sum.splits prod.splits)

text \<open>
  A relation \<open>F\<close> between the runtime before and after, reflexive and transitive on the
  runtimes that satisfy \<open>P\<close>, holds of a sequence of operations when it holds of each
  of them, whether they return or throw.
\<close>

lemma execStmts_inv:
  assumes step: "\<And>x lv s r s'. x \<in> set xs \<Longrightarrow> P s \<Longrightarrow>
                   execStmt rec ext c x lv s = Some (r, s') \<Longrightarrow> F s s'"
    and refl: "\<And>s. P s \<Longrightarrow> F s s"
    and trans: "\<And>s s1 s2. F s s1 \<Longrightarrow> F s1 s2 \<Longrightarrow> F s s2"
    and post: "\<And>s s'. F s s' \<Longrightarrow> P s'"
  shows "P s \<Longrightarrow> execStmts rec ext c xs lv s = Some (r, s') \<Longrightarrow> F s s'"
  using step
proof (induction xs arbitrary: lv s)
  case Nil
  then show ?case by (simp add: refl)
next
  case (Cons x xs)
  from Cons.prems(2) have "andThen (execStmt rec ext c x lv s)
                             (\<lambda>v s1. execStmts rec ext c xs v s1) = Some (r, s')"
    by simp
  then show ?case
  proof (cases rule: andThen_SomeE)
    case (thrown e)
    with Cons.prems(1) Cons.prems(3) [of x s lv "Inl e" s'] show ?thesis
      by simp
  next
    case (returned u s1)
    from Cons.prems(1) Cons.prems(3) [of x s lv "Inr u" s1] returned(1) have f1: "F s s1"
      by simp
    then have "P s1" by (rule post)
    have "F s1 s'"
    proof (rule Cons.IH [OF \<open>P s1\<close> returned(2)])
      fix y lv0 s0 r0 s0'
      assume "y \<in> set xs" and "P s0" and "execStmt rec ext c y lv0 s0 = Some (r0, s0')"
      then show "F s0 s0'"
        using Cons.prems(3) [of y s0 lv0 r0 s0'] by simp
    qed
    with f1 show ?thesis by (rule trans)
  qed
qed

lemma execStmt_TryCatch_inv:
  assumes body: "\<And>x lv s r s'. x \<in> set body \<Longrightarrow> P s \<Longrightarrow>
                   execStmt rec ext c x lv s = Some (r, s') \<Longrightarrow> F s s'"
    and handler: "\<And>x lv s r s'. x \<in> set handler \<Longrightarrow> P s \<Longrightarrow>
                   execStmt rec ext c x lv s = Some (r, s') \<Longrightarrow> F s s'"
    and refl: "\<And>s. P s \<Longrightarrow> F s s"
    and trans: "\<And>s s1 s2. F s s1 \<Longrightarrow> F s1 s2 \<Longrightarrow> F s s2"
    and post: "\<And>s s'. F s s' \<Longrightarrow> P s'"
    and pre: "P s"
    and ex: "execStmt rec ext c (TryCatch body handler) lv s = Some (r, s')"
  shows "F s s'"
proof -
  from ex have "catchError (execStmts rec ext c body lv s)
                  (\<lambda>e s1. execStmts rec ext c handler lv s1) = Some (r, s')"
    by simp
  then show ?thesis
  proof (cases rule: catchError_SomeE)
    case (caught e s1)
    from execStmts_inv [of body P rec ext c F, OF body refl trans post pre caught(1)]
    have f1: "F s s1" .
    then have "P s1" by (rule post)
    from execStmts_inv [of handler P rec ext c F, OF handler refl trans post this caught(2)]
    have "F s1 s'" .
    with f1 show ?thesis by (rule trans)
  next
    case (returned v)
    from execStmts_inv [of body P rec ext c F, OF body refl trans post pre returned(1)]
    show ?thesis .
  qed
qed

lemma execStmt_TryFinally_inv:
  assumes body: "\<And>x lv s r s'. x \<in> set body \<Longrightarrow> P s \<Longrightarrow>
                   execStmt rec ext c x lv s = Some (r, s') \<Longrightarrow> F s s'"
    and finalizer: "\<And>x lv s r s'. x \<in> set finalizer \<Longrightarrow> P s \<Longrightarrow>
                   execStmt rec ext c x lv s = Some (r, s') \<Longrightarrow> F s s'"
    and refl: "\<And>s. P s \<Longrightarrow> F s s"
    and trans: "\<And>s s1 s2. F s s1 \<Longrightarrow> F s1 s2 \<Longrightarrow> F s s2"
    and post: "\<And>s s'. F s s' \<Longrightarrow> P s'"
    and pre: "P s"
    and ex: "execStmt rec ext c (TryFinally body finalizer) lv s = Some (r, s')"
  shows "F s s'"
proof -
  from ex have "finallyDo (execStmts rec ext c body lv s)
                  (\<lambda>s1. execStmts rec ext c finalizer lv s1) = Some (r, s')"
    by simp
  then obtain q s1 p where b: "execStmts rec ext c body lv s = Some (q, s1)"
    and f: "execStmts rec ext c finalizer lv s1 = Some (p, s')"
    by (rule finallyDo_SomeE)
  from execStmts_inv [of body P rec ext c F, OF body refl trans post pre b]
  have f1: "F s s1" .
  then have "P s1" by (rule post)
  from execStmts_inv [of finalizer P rec ext c F, OF finalizer refl trans post this f]
  have "F s1 s'" .
  with f1 show ?thesis by (rule trans)
qed

subsection \<open>The scope of \<open>isolateModules\<close>\<close>

lemma isoFrame_refl: "isolating s \<Longrightarrow> isoFrame s s"
  by (simp add: isoFrame_def)

lemma isoFrame_trans: "isoFrame s s1 \<Longrightarrow> isoFrame s1 s2 \<Longrightarrow> isoFrame s s2"
  unfolding isoFrame_def by auto

lemma isoFrame_isolating: "isoFrame s s' \<Longrightarrow> isolating s'"
  by (simp add: isoFrame_def)

lemma recIsoD:
  assumes "recIso rec" and "rec c s = Some (r, s')" and "isolating s"
  shows "isoFrame s s'"
  using assms unfolding recIso_def by blast

lemma sameRegs_isoFrame: "isolating s \<Longrightarrow> sameRegs s s' \<Longrightarrow> isoFrame s s'"
  by (simp add: sameRegs_def isoFrame_def isolating_def)

lemma sameRegs_refl: "sameRegs s s"
  by (simp add: sameRegs_def)

lemma sameRegs_trans: "sameRegs s s1 \<Longrightarrow> sameRegs s1 s2 \<Longrightarrow> sameRegs s s2"
  by (simp add: sameRegs_def)

lemma sameRegs_newObject: "newObject s = (v, s1) \<Longrightarrow> sameRegs s s1"
  by (auto simp: sameRegs_def newObject_def factoriesOk_def)

lemma sameRegs_evalExpr: "evalExpr e lv s = (v, s1) \<Longrightarrow> sameRegs s s1"
  by (cases e) (auto simp: sameRegs_refl sameRegs_newObject)

lemma sameRegs_setExports: "sameRegs s (setExports m v s)"
  by (simp add: sameRegs_def setExports_def factoriesOk_def)

lemma sameRegs_setMock:
  "list_all noReset (fac_body f) \<Longrightarrow> sameRegs s (setMock ext from moduleName f virtual s)"
  by (simp add: sameRegs_def setMock_def factoriesOk_def Let_def)

lemma sameRegs_mock:
  assumes "noReset (JestMock moduleName mockFactory virtual)"
  shows "sameRegs s (mock ext c moduleName mockFactory virtual s)"
proof (cases mockFactory)
  case None
  then show ?thesis
    by (simp add: mock_def sameRegs_def factoriesOk_def Let_def)
next
  case (Some p)
  with assms show ?thesis
    by (cases p) (simp add: mock_def sameRegs_setMock)
qed

lemma sameRegs_policy:
  "sameRegs s (unmock ext from moduleName s)"
  "sameRegs s (deepUnmock ext from moduleName s)"
  "sameRegs s (enableAutomock s)"
  "sameRegs s (disableAutomock s)"
  by (simp_all add: sameRegs_def unmock_def deepUnmock_def enableAutomock_def disableAutomock_def
                    factoriesOk_def Let_def)

lemma execStmt_iso:
  assumes rec: "recIso rec"
  shows "noReset x \<Longrightarrow> isolating s \<Longrightarrow> execStmt rec ext c x lv s = Some (r, s') \<Longrightarrow>
         isoFrame s s'"
proof (induction x arbitrary: lv s r s')
  case (Require n)
  then show ?case
    by (auto split: if_splits intro: recIsoD [OF rec])
next
  case (RequireActual n)
  then show ?case
    by (auto intro: recIsoD [OF rec])
next
  case (RequireMock n)
  then show ?case
    by (auto intro: recIsoD [OF rec])
next
  case (SetExports e)
  then obtain u s1 where "evalExpr e lv s = (u, s1)" and "s' = setExports (ctx_module c) u s1"
    by (auto split: prod.splits)
  then have "sameRegs s s'"
    using sameRegs_evalExpr sameRegs_setExports sameRegs_trans by blast
  with SetExports.prems(2) show ?case
    by (rule sameRegs_isoFrame)
next
  case (Throw e)
  then show ?case by (simp add: isoFrame_refl)
next
  case (JestMock n f virtual)
  from JestMock.prems show ?case
    by (auto intro!: sameRegs_isoFrame sameRegs_mock)
next
  case (JestSetMock n u)
  then show ?case
    by (auto intro!: sameRegs_isoFrame sameRegs_setMock)
next
  case (JestUnmock n)
  then show ?case
    by (auto intro!: sameRegs_isoFrame sameRegs_policy)
next
  case (JestDeepUnmock n)
  then show ?case
    by (auto intro!: sameRegs_isoFrame sameRegs_policy)
next
  case JestEnableAutomock
  then show ?case
    by (auto intro!: sameRegs_isoFrame sameRegs_policy)
next
  case JestDisableAutomock
  then show ?case
    by (auto intro!: sameRegs_isoFrame sameRegs_policy)
next
  case JestResetModules
  then show ?case by simp
next
  case (JestIsolateModules fn)
  from JestIsolateModules.prems(3)
  have "\<exists>q. rec (CIsolateModules c fn) s = Some (q, s')"
    by (auto elim!: andThen_SomeE)
  with JestIsolateModules.prems(2) show ?case
    by (auto intro: recIsoD [OF rec])
next
  case (JestGenMockFromModule n)
  then show ?case
    by (auto intro: recIsoD [OF rec])
next
  case (TryCatch body handler)
  from TryCatch.prems(1) have ok: "list_all noReset body" "list_all noReset handler"
    by simp_all
  show ?case
  proof (rule execStmt_TryCatch_inv [of body isolating rec ext c isoFrame handler,
                                      OF _ _ _ _ _ TryCatch.prems(2) TryCatch.prems(3)])
    fix x lv s r s'
    assume "x \<in> set body" and "isolating s" and "execStmt rec ext c x lv s = Some (r, s')"
    with TryCatch.IH(1) ok(1) show "isoFrame s s'"
      by (auto simp: list_all_iff)
  next
    fix x lv s r s'
    assume "x \<in> set handler" and "isolating s" and "execStmt rec ext c x lv s = Some (r, s')"
    with TryCatch.IH(2) ok(2) show "isoFrame s s'"
      by (auto simp: list_all_iff)
  qed (auto intro: isoFrame_refl isoFrame_trans isoFrame_isolating)
next
  case (TryFinally body finalizer)
  from TryFinally.prems(1) have ok: "list_all noReset body" "list_all noReset finalizer"
    by simp_all
  show ?case
  proof (rule execStmt_TryFinally_inv [of body isolating rec ext c isoFrame finalizer,
                                        OF _ _ _ _ _ TryFinally.prems(2) TryFinally.prems(3)])
    fix x lv s r s'
    assume "x \<in> set body" and "isolating s" and "execStmt rec ext c x lv s = Some (r, s')"
    with TryFinally.IH(1) ok(1) show "isoFrame s s'"
      by (auto simp: list_all_iff)
  next
    fix x lv s r s'
    assume "x \<in> set finalizer" and "isolating s" and "execStmt rec ext c x lv s = Some (r, s')"
    with TryFinally.IH(2) ok(2) show "isoFrame s s'"
      by (auto simp: list_all_iff)
  qed (auto intro: isoFrame_refl isoFrame_trans isoFrame_isolating)
qed

lemma execStmts_iso:
  assumes rec: "recIso rec" and iso: "isolating s" and ok: "list_all noReset xs"
    and ex: "execStmts rec ext c xs lv s = Some (r, s')"
  shows "isoFrame s s'"
proof (rule execStmts_inv [of xs isolating rec ext c isoFrame, OF _ _ _ _ iso ex])
  fix x lv s r s'
  assume "x \<in> set xs" and "isolating s" and "execStmt rec ext c x lv s = Some (r, s')"
  with execStmt_iso [OF rec] ok show "isoFrame s s'"
    by (auto simp: list_all_iff)
qed (auto intro: isoFrame_refl isoFrame_trans isoFrame_isolating)

lemma factoriesOk_upd [simp]:
  "factoriesOk (s\<lparr>currentlyExecutingModulePath := x0\<rparr>) = factoriesOk s"
  "factoriesOk (s\<lparr>isCurrentlyExecutingManualMock := x1\<rparr>) = factoriesOk s"
  "factoriesOk (s\<lparr>explicitShouldMock := x2\<rparr>) = factoriesOk s"
  "factoriesOk (s\<lparr>transitiveShouldMock := x3\<rparr>) = factoriesOk s"
  "factoriesOk (s\<lparr>mockMetaDataCache := x4\<rparr>) = factoriesOk s"
  "factoriesOk (s\<lparr>needsCoverageMapped := x5\<rparr>) = factoriesOk s"
  "factoriesOk (s\<lparr>shouldAutoMock := x6\<rparr>) = factoriesOk s"
  "factoriesOk (s\<lparr>shouldMockModuleCache := x7\<rparr>) = factoriesOk s"
  "factoriesOk (s\<lparr>shouldUnmockTransitiveDependenciesCache := x8\<rparr>) = factoriesOk s"
  "factoriesOk (s\<lparr>sourceMapRegistry := x9\<rparr>) = factoriesOk s"
  "factoriesOk (s\<lparr>virtualMocks := x10\<rparr>) = factoriesOk s"
  "factoriesOk (s\<lparr>modules := x11\<rparr>) = factoriesOk s"
  "factoriesOk (s\<lparr>nextModule := x12\<rparr>) = factoriesOk s"
  "factoriesOk (s\<lparr>nextObject := x13\<rparr>) = factoriesOk s"
  "factoriesOk (s\<lparr>exitCode := x14\<rparr>) = factoriesOk s"
  "factoriesOk (s\<lparr>consoleErrors := x15\<rparr>) = factoriesOk s"
  by (simp_all add: factoriesOk_def)

lemma isolating_upd [simp]:
  "isolating (s\<lparr>currentlyExecutingModulePath := x0\<rparr>) = isolating s"
  "isolating (s\<lparr>isCurrentlyExecutingManualMock := x1\<rparr>) = isolating s"
  "isolating (s\<lparr>explicitShouldMock := x2\<rparr>) = isolating s"
  "isolating (s\<lparr>transitiveShouldMock := x3\<rparr>) = isolating s"
  "isolating (s\<lparr>mockMetaDataCache := x4\<rparr>) = isolating s"
  "isolating (s\<lparr>needsCoverageMapped := x5\<rparr>) = isolating s"
  "isolating (s\<lparr>shouldAutoMock := x6\<rparr>) = isolating s"
  "isolating (s\<lparr>shouldMockModuleCache := x7\<rparr>) = isolating s"
  "isolating (s\<lparr>shouldUnmockTransitiveDependenciesCache := x8\<rparr>) = isolating s"
  "isolating (s\<lparr>sourceMapRegistry := x9\<rparr>) = isolating s"
  "isolating (s\<lparr>virtualMocks := x10\<rparr>) = isolating s"
  "isolating (s\<lparr>modules := x11\<rparr>) = isolating s"
  "isolating (s\<lparr>nextModule := x12\<rparr>) = isolating s"
  "isolating (s\<lparr>nextObject := x13\<rparr>) = isolating s"
  "isolating (s\<lparr>exitCode := x14\<rparr>) = isolating s"
  "isolating (s\<lparr>consoleErrors := x15\<rparr>) = isolating s"
  by (simp_all add: isolating_def)

lemma isoFrame_upd_right [simp]:
  "isoFrame s (s'\<lparr>currentlyExecutingModulePath := x0\<rparr>) = isoFrame s s'"
  "isoFrame s (s'\<lparr>isCurrentlyExecutingManualMock := x1\<rparr>) = isoFrame s s'"
  "isoFrame s (s'\<lparr>explicitShouldMock := x2\<rparr>) = isoFrame s s'"
  "isoFrame s (s'\<lparr>transitiveShouldMock := x3\<rparr>) = isoFrame s s'"
  "isoFrame s (s'\<lparr>mockMetaDataCache := x4\<rparr>) = isoFrame s s'"
  "isoFrame s (s'\<lparr>needsCoverageMapped := x5\<rparr>) = isoFrame s s'"
  "isoFrame s (s'\<lparr>shouldAutoMock := x6\<rparr>) = isoFrame s s'"
  "isoFrame s (s'\<lparr>shouldMockModuleCache := x7\<rparr>) = isoFrame s s'"
  "isoFrame s (s'\<lparr>shouldUnmockTransitiveDependenciesCache := x8\<rparr>) = isoFrame s s'"
  "isoFrame s (s'\<lparr>sourceMapRegistry := x9\<rparr>) = isoFrame s s'"
  "isoFrame s (s'\<lparr>virtualMocks := x10\<rparr>) = isoFrame s s'"
  "isoFrame s (s'\<lparr>modules := x11\<rparr>) = isoFrame s s'"
  "isoFrame s (s'\<lparr>nextModule := x12\<rparr>) = isoFrame s s'"
  "isoFrame s (s'\<lparr>nextObject := x13\<rparr>) = isoFrame s s'"
  "isoFrame s (s'\<lparr>exitCode := x14\<rparr>) = isoFrame s s'"
  "isoFrame s (s'\<lparr>consoleErrors := x15\<rparr>) = isoFrame s s'"
  by (simp_all add: isoFrame_def)

lemma isoFrame_upd_left [simp]:
  "isoFrame (s\<lparr>currentlyExecutingModulePath := x0\<rparr>) s' = isoFrame s s'"
  "isoFrame (s\<lparr>isCurrentlyExecutingManualMock := x1\<rparr>) s' = isoFrame s s'"
  "isoFrame (s\<lparr>explicitShouldMock := x2\<rparr>) s' = isoFrame s s'"
  "isoFrame (s\<lparr>transitiveShouldMock := x3\<rparr>) s' = isoFrame s s'"
  "isoFrame (s\<lparr>mockMetaDataCache := x4\<rparr>) s' = isoFrame s s'"
  "isoFrame (s\<lparr>needsCoverageMapped := x5\<rparr>) s' = isoFrame s s'"
  "isoFrame (s\<lparr>shouldAutoMock := x6\<rparr>) s' = isoFrame s s'"
  "isoFrame (s\<lparr>shouldMockModuleCache := x7\<rparr>) s' = isoFrame s s'"
  "isoFrame (s\<lparr>shouldUnmockTransitiveDependenciesCache := x8\<rparr>) s' = isoFrame s s'"
  "isoFrame (s\<lparr>sourceMapRegistry := x9\<rparr>) s' = isoFrame s s'"
  "isoFrame (s\<lparr>virtualMocks := x10\<rparr>) s' = isoFrame s s'"
  "isoFrame (s\<lparr>modules := x11\<rparr>) s' = isoFrame s s'"
  "isoFrame (s\<lparr>nextModule := x12\<rparr>) s' = isoFrame s s'"
  "isoFrame (s\<lparr>nextObject := x13\<rparr>) s' = isoFrame s s'"
  "isoFrame (s\<lparr>exitCode := x14\<rparr>) s' = isoFrame s s'"
  "isoFrame (s\<lparr>consoleErrors := x15\<rparr>) s' = isoFrame s s'"
  by (simp_all add: isoFrame_def)

lemma execStmts_iso_script:
  assumes "execStmts rec ext c w lv s0 = Some (r, s1)"
    and "runScript ext (script t) = Some w" and "transform ext f internal = Inr t"
    and "isolating s0" and "recIso rec" and "scriptsOk ext"
  shows "isoFrame s0 s1"
proof -
  have "list_all noReset w"
    using assms(2,3,6) unfolding scriptsOk_def by blast
  from execStmts_iso [OF assms(5) assms(4) this assms(1)] show ?thesis .
qed

lemma execModule_iso:
  assumes rec: "recIso rec" and scripts: "scriptsOk ext" and iso: "isolating s"
    and ex: "execModule rec ext localModule isInternalModule from s = Some (r, s')"
  shows "isoFrame s s'"
proof (cases "env_global ext")
  case None
  with ex iso show ?thesis
    by (simp add: execModule_def isoFrame_refl)
next
  case (Some g)
  show ?thesis
    using ex Some iso scripts rec
    by (auto simp: execModule_def Let_def logFormattedReferenceError_def isoFrame_refl
             split: sum.splits option.splits if_splits
             elim!: andThen_SomeE dest!: execStmts_iso_script)
qed

lemma loadModule_iso:
  assumes rec: "recIso rec" and scripts: "scriptsOk ext" and iso: "isolating s"
    and ex: "loadModule rec ext localModule from moduleName modulePath isInternalModule s
               = Some (r, s')"
  shows "isoFrame s s'"
  using ex iso
  by (auto simp: loadModule_def setExports_def newObject_def isoFrame_refl
           split: sum.splits option.splits if_splits prod.splits
           elim!: andThen_SomeE dest!: execModule_iso [OF rec scripts, rotated])

lemma isoFrame_moduleMapSet:
  assumes "isolating s" and "R = internalModuleRegistry s \<or> isolatedModuleRegistry s = Some R"
  shows "isoFrame s (moduleMapSet R k m s)"
  using assms by (auto simp: isoFrame_def isolating_def moduleMapSet_def factoriesOk_def)

lemma isoFrame_mapSet:
  assumes "isolating s" and "isolatedMockRegistry s = Some R"
  shows "isoFrame s (mapSet R k v s)"
  using assms by (auto simp: isoFrame_def isolating_def mapSet_def factoriesOk_def)

lemma loadModule_iso_registered:
  assumes "loadModule rec ext localModule from moduleName modulePath isInternalModule
             (moduleMapSet R k m s0) = Some (r, s')"
    and "isolating s0" and "R = internalModuleRegistry s0 \<or> isolatedModuleRegistry s0 = Some R"
    and "recIso rec" and "scriptsOk ext"
  shows "isoFrame s0 s'"
proof -
  have a: "isoFrame s0 (moduleMapSet R k m s0)"
    using assms(2,3) by (rule isoFrame_moduleMapSet)
  then have "isolating (moduleMapSet R k m s0)"
    by (rule isoFrame_isolating)
  from loadModule_iso [OF assms(4) assms(5) this assms(1)] a show ?thesis
    using isoFrame_trans by blast
qed

lemma requireModule_iso:
  assumes rec: "recIso rec" and scripts: "scriptsOk ext" and iso: "isolating s"
    and ex: "requireModule rec ext from moduleName isInternalModule isRequireActual s
               = Some (r, s')"
  shows "isoFrame s s'"
  using ex iso rec scripts
  apply (simp add: requireModule_def Let_def newLocalModule_def newObject_def newModule_def
              split: sum.splits option.splits if_splits prod.splits)
  apply (auto simp: isoFrame_refl isolating_def elim!: andThen_SomeE dest!: loadModule_iso_registered)
  done

lemma generateMock_frame:
  assumes r: "requireModule rec ext from moduleName isInternalModule isRequireActual
              (s5\<lparr>moduleRegistry := b\<rparr>) = Some (q, s6)"
    and b: "newModuleMap (s4\<lparr>mockRegistry := a\<rparr>) = (b, s5)"
    and a: "newMockMap s = (a, s4)"
    and iso: "isolating s"
    and rec: "recIso rec" and scripts: "scriptsOk ext"
  shows "isoFrame s s6
         \<and> isoFrame s (s6\<lparr>mockRegistry := mockRegistry s, moduleRegistry := moduleRegistry s\<rparr>)"
proof -
  have pre: "isolating (s5\<lparr>moduleRegistry := b\<rparr>)"
    using iso a b by (auto simp: isolating_def newMockMap_def newModuleMap_def factoriesOk_def)
  from requireModule_iso [OF rec scripts pre r]
  have f: "isoFrame (s5\<lparr>moduleRegistry := b\<rparr>) s6" .
  show ?thesis
    using f iso a b
    by (auto simp: isoFrame_def isolating_def newMockMap_def newModuleMap_def factoriesOk_def)
qed

lemma generateMock_iso:
  assumes rec: "recIso rec" and scripts: "scriptsOk ext" and iso: "isolating s"
    and ex: "generateMock rec ext from moduleName s = Some (r, s')"
  shows "isoFrame s s'"
  using ex iso rec scripts
  apply (simp add: generateMock_def Let_def newObject_def
              split: sum.splits option.splits if_splits prod.splits)
  apply (auto simp: isoFrame_refl newObject_def elim!: andThen_SomeE dest!: generateMock_frame
              split: sum.splits option.splits if_splits prod.splits)
  done

lemma evalExpr_isoFrame:
  assumes "isoFrame s s1" and "evalExpr e lv s1 = (v, s2)"
  shows "isoFrame s s2"
  using assms by (cases e) (auto simp: newObject_def)

lemma callFactory_iso:
  assumes ex: "callFactory rec ext f s = Some (r, s')"
    and f: "mockFactories s k = Some f" and iso: "isolating s"
    and rec: "recIso rec"
  shows "isoFrame s s'"
proof -
  have ok: "list_all noReset (fac_body f)"
    using f iso by (auto simp: isolating_def factoriesOk_def)
  from ex have "andThen (execStmts rec ext (fac_ctx f) (fac_body f) JUndefined s)
                  (\<lambda>lastValue s1. case evalExpr (fac_result f) lastValue s1 of
                                     (v, s2) \<Rightarrow> Some (Inr v, s2)) = Some (r, s')"
    by (simp add: callFactory_def)
  then show ?thesis
  proof (cases rule: andThen_SomeE)
    case (thrown e)
    from execStmts_iso [OF rec iso ok thrown(1)] show ?thesis .
  next
    case (returned u s1)
    from returned(2) obtain v where "evalExpr (fac_result f) u s1 = (v, s')"
      by (auto split: prod.splits)
    with execStmts_iso [OF rec iso ok returned(1)] show ?thesis
      by (rule evalExpr_isoFrame)
  qed
qed

lemma isoFrame_then_mapSet:
  assumes "isoFrame s s1" and "isolatedMockRegistry s = Some a"
  shows "isoFrame s (mapSet a k v s1)"
proof -
  have "isolating s1" and "isolatedMockRegistry s1 = Some a"
    using assms by (simp_all add: isoFrame_def)
  then have "isoFrame s1 (mapSet a k v s1)"
    by (rule isoFrame_mapSet)
  with assms(1) show ?thesis
    by (rule isoFrame_trans)
qed

lemma requireMock_iso:
  assumes rec: "recIso rec" and scripts: "scriptsOk ext" and iso: "isolating s"
    and ex: "requireMock rec ext from moduleName s = Some (r, s')"
  shows "isoFrame s s'"
proof -
  from iso obtain a where a: "isolatedMockRegistry s = Some a"
    by (auto simp: isolating_def)
  show ?thesis
    using ex iso rec scripts a
    apply (simp add: requireMock_def Let_def newLocalModule_def newObject_def newModule_def
                split: sum.splits option.splits if_splits prod.splits)
    apply (auto simp: isoFrame_refl elim!: andThen_SomeE intro!: isoFrame_then_mapSet
                dest!: callFactory_iso loadModule_iso [rotated 3] generateMock_iso [rotated 3])
    done
qed

lemma shouldMock_sameRegs:
  assumes "shouldMock ext from moduleName s = (r, s1)"
  shows "sameRegs s s1"
  using assms
  by (auto simp: shouldMock_def Let_def sameRegs_def
           split: option.splits if_splits sum.splits)

lemma requireModuleOrMock_iso:
  assumes rec: "recIso rec" and scripts: "scriptsOk ext" and iso: "isolating s"
    and ex: "requireModuleOrMock rec ext from moduleName s = Some (r, s')"
  shows "isoFrame s s'"
proof -
  obtain p s1 where sm: "shouldMock ext from moduleName s = (p, s1)"
    by (cases "shouldMock ext from moduleName s")
  from sm have "sameRegs s s1"
    by (rule shouldMock_sameRegs)
  with iso have f: "isoFrame s s1"
    by (rule sameRegs_isoFrame)
  then have iso1: "isolating s1"
    by (rule isoFrame_isolating)
  show ?thesis
  proof (cases p)
    case (Inl e)
    with ex sm have "s' = s1"
      by (simp add: requireModuleOrMock_def rethrow_def)
    with f show ?thesis by simp
  next
    case (Inr b)
    with ex sm obtain q where
      "(if b then requireMock rec ext from moduleName s1
        else requireModule rec ext from (Some moduleName) False False s1) = Some (q, s')"
      by (auto simp: requireModuleOrMock_def rethrow_def
               split: option.splits sum.splits prod.splits if_splits)
    then have "isoFrame s1 s'"
      using requireMock_iso [OF rec scripts iso1] requireModule_iso [OF rec scripts iso1]
      by (auto split: if_splits)
    with f show ?thesis
      by (rule isoFrame_trans)
  qed
qed

lemma run_recIso:
  assumes scripts: "scriptsOk ext"
  shows "recIso (run n ext)"
proof (induction n)
  case 0
  then show ?case by (simp add: recIso_def)
next
  case (Suc n)
  show ?case
    unfolding recIso_def
  proof (intro allI impI)
    fix c s r s'
    assume iso: "isolating s" and ex: "run (Suc n) ext c s = Some (r, s')"
    show "isoFrame s s'"
    proof (cases c)
      case (CRequireModuleOrMock fr moduleName)
      with ex requireModuleOrMock_iso [OF Suc scripts iso] show ?thesis by simp
    next
      case (CRequireInternalModule fr moduleName)
      with ex requireModule_iso [OF Suc scripts iso] show ?thesis
        by (simp add: requireInternalModule_def)
    next
      case (CRequireActual fr moduleName)
      with ex requireModule_iso [OF Suc scripts iso] show ?thesis
        by (simp add: requireActual_def)
    next
      case (CRequireMock fr moduleName)
      with ex requireMock_iso [OF Suc scripts iso] show ?thesis by simp
    next
      case (CGenerateMock fr moduleName)
      with ex generateMock_iso [OF Suc scripts iso] show ?thesis by simp
    next
      case (CIsolateModules ctx fn)
      with ex iso have "s' = s"
        by (auto simp: isolateModules_def isolating_def)
      with iso show ?thesis
        by (simp add: isoFrame_refl)
    qed
  qed
qed

lemma kept_refl: "factoriesNoTry s \<Longrightarrow> kept s s"
  by (simp add: kept_def)

lemma kept_trans: "kept s s1 \<Longrightarrow> kept s1 s2 \<Longrightarrow> kept s s2"
  by (simp add: kept_def)

lemma kept_factories: "kept s s' \<Longrightarrow> factoriesNoTry s'"
  by (simp add: kept_def)

lemma recKeptD:
  assumes "recKept rec" and "rec c s = Some (Inr v, s')" and "factoriesNoTry s"
    and "list_all noTry (callCode c)"
  shows "kept s s'"
  using assms unfolding recKept_def by blast

lemma factoriesNoTry_upd [simp]:
  "factoriesNoTry (s\<lparr>currentlyExecutingModulePath := x0\<rparr>) = factoriesNoTry s"
  "factoriesNoTry (s\<lparr>isCurrentlyExecutingManualMock := x1\<rparr>) = factoriesNoTry s"
  "factoriesNoTry (s\<lparr>explicitShouldMock := x2\<rparr>) = factoriesNoTry s"
  "factoriesNoTry (s\<lparr>transitiveShouldMock := x3\<rparr>) = factoriesNoTry s"
  "factoriesNoTry (s\<lparr>mockMetaDataCache := x4\<rparr>) = factoriesNoTry s"
  "factoriesNoTry (s\<lparr>mockRegistry := x5\<rparr>) = factoriesNoTry s"
  "factoriesNoTry (s\<lparr>isolatedMockRegistry := x6\<rparr>) = factoriesNoTry s"
  "factoriesNoTry (s\<lparr>moduleRegistry := x7\<rparr>) = factoriesNoTry s"
  "factoriesNoTry (s\<lparr>isolatedModuleRegistry := x8\<rparr>) = factoriesNoTry s"
  "factoriesNoTry (s\<lparr>internalModuleRegistry := x9\<rparr>) = factoriesNoTry s"
  "factoriesNoTry (s\<lparr>needsCoverageMapped := x10\<rparr>) = factoriesNoTry s"
  "factoriesNoTry (s\<lparr>shouldAutoMock := x11\<rparr>) = factoriesNoTry s"
  "factoriesNoTry (s\<lparr>shouldMockModuleCache := x12\<rparr>) = factoriesNoTry s"
  "factoriesNoTry (s\<lparr>shouldUnmockTransitiveDependenciesCache := x13\<rparr>) = factoriesNoTry s"
  "factoriesNoTry (s\<lparr>sourceMapRegistry := x14\<rparr>) = factoriesNoTry s"
  "factoriesNoTry (s\<lparr>virtualMocks := x15\<rparr>) = factoriesNoTry s"
  "factoriesNoTry (s\<lparr>moduleMaps := x16\<rparr>) = factoriesNoTry s"
  "factoriesNoTry (s\<lparr>nextModuleMap := x17\<rparr>) = factoriesNoTry s"
  "factoriesNoTry (s\<lparr>mockMaps := x18\<rparr>) = factoriesNoTry s"
  "factoriesNoTry (s\<lparr>nextMockMap := x19\<rparr>) = factoriesNoTry s"
  "factoriesNoTry (s\<lparr>modules := x20\<rparr>) = factoriesNoTry s"
  "factoriesNoTry (s\<lparr>nextModule := x21\<rparr>) = factoriesNoTry s"
  "factoriesNoTry (s\<lparr>nextObject := x22\<rparr>) = factoriesNoTry s"
  "factoriesNoTry (s\<lparr>exitCode := x23\<rparr>) = factoriesNoTry s"
  "factoriesNoTry (s\<lparr>consoleErrors := x24\<rparr>) = factoriesNoTry s"
  by (simp_all add: factoriesNoTry_def)

lemma kept_upd_right [simp]:
  "kept s (s'\<lparr>currentlyExecutingModulePath := x0\<rparr>) = kept s s'"
  "kept s (s'\<lparr>isCurrentlyExecutingManualMock := x1\<rparr>) = kept s s'"
  "kept s (s'\<lparr>explicitShouldMock := x2\<rparr>) = kept s s'"
  "kept s (s'\<lparr>transitiveShouldMock := x3\<rparr>) = kept s s'"
  "kept s (s'\<lparr>mockMetaDataCache := x4\<rparr>) = kept s s'"
  "kept s (s'\<lparr>isolatedMockRegistry := x5\<rparr>) = kept s s'"
  "kept s (s'\<lparr>isolatedModuleRegistry := x6\<rparr>) = kept s s'"
  "kept s (s'\<lparr>internalModuleRegistry := x7\<rparr>) = kept s s'"
  "kept s (s'\<lparr>needsCoverageMapped := x8\<rparr>) = kept s s'"
  "kept s (s'\<lparr>shouldAutoMock := x9\<rparr>) = kept s s'"
  "kept s (s'\<lparr>shouldMockModuleCache := x10\<rparr>) = kept s s'"
  "kept s (s'\<lparr>shouldUnmockTransitiveDependenciesCache := x11\<rparr>) = kept s s'"
  "kept s (s'\<lparr>sourceMapRegistry := x12\<rparr>) = kept s s'"
  "kept s (s'\<lparr>virtualMocks := x13\<rparr>) = kept s s'"
  "kept s (s'\<lparr>moduleMaps := x14\<rparr>) = kept s s'"
  "kept s (s'\<lparr>nextModuleMap := x15\<rparr>) = kept s s'"
  "kept s (s'\<lparr>mockMaps := x16\<rparr>) = kept s s'"
  "kept s (s'\<lparr>nextMockMap := x17\<rparr>) = kept s s'"
  "kept s (s'\<lparr>modules := x18\<rparr>) = kept s s'"
  "kept s (s'\<lparr>nextModule := x19\<rparr>) = kept s s'"
  "kept s (s'\<lparr>nextObject := x20\<rparr>) = kept s s'"
  "kept s (s'\<lparr>exitCode := x21\<rparr>) = kept s s'"
  "kept s (s'\<lparr>consoleErrors := x22\<rparr>) = kept s s'"
  by (simp_all add: kept_def)

lemma kept_upd_left [simp]:
  "kept (s\<lparr>currentlyExecutingModulePath := x0\<rparr>) s' = kept s s'"
  "kept (s\<lparr>isCurrentlyExecutingManualMock := x1\<rparr>) s' = kept s s'"
  "kept (s\<lparr>explicitShouldMock := x2\<rparr>) s' = kept s s'"
  "kept (s\<lparr>transitiveShouldMock := x3\<rparr>) s' = kept s s'"
  "kept (s\<lparr>mockFactories := x4\<rparr>) s' = kept s s'"
  "kept (s\<lparr>mockMetaDataCache := x5\<rparr>) s' = kept s s'"
  "kept (s\<lparr>isolatedMockRegistry := x6\<rparr>) s' = kept s s'"
  "kept (s\<lparr>isolatedModuleRegistry := x7\<rparr>) s' = kept s s'"
  "kept (s\<lparr>internalModuleRegistry := x8\<rparr>) s' = kept s s'"
  "kept (s\<lparr>needsCoverageMapped := x9\<rparr>) s' = kept s s'"
  "kept (s\<lparr>shouldAutoMock := x10\<rparr>) s' = kept s s'"
  "kept (s\<lparr>shouldMockModuleCache := x11\<rparr>) s' = kept s s'"
  "kept (s\<lparr>shouldUnmockTransitiveDependenciesCache := x12\<rparr>) s' = kept s s'"
  "kept (s\<lparr>sourceMapRegistry := x13\<rparr>) s' = kept s s'"
  "kept (s\<lparr>virtualMocks := x14\<rparr>) s' = kept s s'"
  "kept (s\<lparr>moduleMaps := x15\<rparr>) s' = kept s s'"
  "kept (s\<lparr>nextModuleMap := x16\<rparr>) s' = kept s s'"
  "kept (s\<lparr>mockMaps := x17\<rparr>) s' = kept s s'"
  "kept (s\<lparr>nextMockMap := x18\<rparr>) s' = kept s s'"
  "kept (s\<lparr>modules := x19\<rparr>) s' = kept s s'"
  "kept (s\<lparr>nextModule := x20\<rparr>) s' = kept s s'"
  "kept (s\<lparr>nextObject := x21\<rparr>) s' = kept s s'"
  "kept (s\<lparr>exitCode := x22\<rparr>) s' = kept s s'"
  "kept (s\<lparr>consoleErrors := x23\<rparr>) s' = kept s s'"
  by (simp_all add: kept_def)

lemma kept_setMock:
  assumes "factoriesNoTry s" and "list_all noTry (fac_body f)"
  shows "kept s (setMock ext from moduleName f virtual s)"
  using assms by (simp add: kept_def setMock_def factoriesNoTry_def Let_def)

lemma execStmt_kept:
  assumes rec: "recKept rec" and fp: "factoriesNoTry s" and ok: "noTry x"
    and ex: "execStmt rec ext c x lv s = Some (Inr v, s')"
  shows "kept s s'"
proof (cases x)
  case (Require n)
  with ex fp show ?thesis
    by (auto split: if_splits intro: recKeptD [OF rec])
next
  case (RequireActual n)
  with ex fp show ?thesis
    by (auto intro: recKeptD [OF rec])
next
  case (RequireMock n)
  with ex fp show ?thesis
    by (auto intro: recKeptD [OF rec])
next
  case (SetExports e)
  with ex fp show ?thesis
    by (cases e) (auto simp: kept_refl setExports_def newObject_def split: prod.splits)
next
  case (Throw e)
  with ex show ?thesis by simp
next
  case (JestMock n f virtual)
  show ?thesis
  proof (cases f)
    case None
    with JestMock ex fp show ?thesis
      by (auto simp: mock_def kept_refl Let_def)
  next
    case (Some p)
    with JestMock ex fp ok show ?thesis
      by (cases p) (auto simp: mock_def intro!: kept_setMock)
  qed
next
  case (JestSetMock n u)
  with ex fp show ?thesis
    by (auto intro!: kept_setMock)
next
  case (JestUnmock n)
  with ex fp show ?thesis
    by (auto simp: kept_refl unmock_def Let_def)
next
  case (JestDeepUnmock n)
  with ex fp show ?thesis
    by (auto simp: kept_refl deepUnmock_def Let_def)
next
  case JestEnableAutomock
  with ex fp show ?thesis
    by (auto simp: kept_refl enableAutomock_def)
next
  case JestDisableAutomock
  with ex fp show ?thesis
    by (auto simp: kept_refl disableAutomock_def)
next
  case JestResetModules
  with ex fp show ?thesis
    by (auto simp: kept_refl resetModules_def)
next
  case (JestIsolateModules fn)
  with ex obtain u where "rec (CIsolateModules c fn) s = Some (Inr u, s')"
    by (auto elim!: andThen_InrE)
  with fp ok JestIsolateModules show ?thesis
    by (auto intro: recKeptD [OF rec])
next
  case (JestGenMockFromModule n)
  with ex fp show ?thesis
    by (auto intro: recKeptD [OF rec])
next
  case (TryCatch body handler)
  with ok show ?thesis by simp
next
  case (TryFinally body finalizer)
  with ok show ?thesis by simp
qed

lemma execStmts_kept:
  assumes rec: "recKept rec"
  shows "factoriesNoTry s \<Longrightarrow> list_all noTry xs \<Longrightarrow>
         execStmts rec ext c xs lv s = Some (Inr v, s') \<Longrightarrow> kept s s'"
proof (induction xs arbitrary: lv s)
  case Nil
  then show ?case by (simp add: kept_refl)
next
  case (Cons x xs)
  from Cons.prems(3) obtain u s1 where
    a: "execStmt rec ext c x lv s = Some (Inr u, s1)"
    and b: "execStmts rec ext c xs u s1 = Some (Inr v, s')"
    by (auto elim!: andThen_InrE)
  from Cons.prems have f1: "kept s s1"
    using execStmt_kept [OF rec _ _ a] by simp
  then have "factoriesNoTry s1" by (rule kept_factories)
  with Cons.IH [OF _ _ b] Cons.prems(2) have "kept s1 s'" by simp
  with f1 show ?case by (rule kept_trans)
qed

lemma execStmts_kept_script:
  assumes "execStmts rec ext c w lv s0 = Some (Inr v, s1)"
    and "runScript ext (script t) = Some w" and "transform ext f internal = Inr t"
    and "factoriesNoTry s0" and "recKept rec" and "scriptsNoTry ext"
  shows "kept s0 s1"
proof -
  have "list_all noTry w"
    using assms(2,3,6) unfolding scriptsNoTry_def by blast
  from execStmts_kept [OF assms(5) assms(4) this assms(1)] show ?thesis .
qed

lemma execModule_kept:
  assumes rec: "recKept rec" and scripts: "scriptsNoTry ext" and fp: "factoriesNoTry s"
    and ex: "execModule rec ext localModule isInternalModule from s = Some (Inr v, s')"
  shows "kept s s'"
proof (cases "env_global ext")
  case None
  with ex fp show ?thesis
    by (simp add: execModule_def kept_refl)
next
  case (Some g)
  show ?thesis
    using ex Some fp scripts rec
    by (auto simp: execModule_def Let_def logFormattedReferenceError_def kept_refl
             split: sum.splits option.splits if_splits
             elim!: andThen_InrE dest!: execStmts_kept_script)
qed

lemma loadModule_kept:
  assumes rec: "recKept rec" and scripts: "scriptsNoTry ext" and fp: "factoriesNoTry s"
    and ex: "loadModule rec ext localModule from moduleName modulePath isInternalModule s
               = Some (Inr v, s')"
  shows "kept s s'"
  using ex fp
  by (auto simp: loadModule_def setExports_def newObject_def kept_refl
           split: sum.splits option.splits if_splits prod.splits
           elim!: andThen_InrE dest!: execModule_kept [OF rec scripts, rotated])

lemma requireModule_kept:
  assumes rec: "recKept rec" and scripts: "scriptsNoTry ext" and fp: "factoriesNoTry s"
    and ex: "requireModule rec ext from moduleName isInternalModule isRequireActual s
               = Some (Inr v, s')"
  shows "kept s s'"
  using ex fp
  apply (simp add: requireModule_def Let_def newLocalModule_def newObject_def newModule_def
                   moduleMapSet_def
              split: sum.splits option.splits if_splits prod.splits)
  apply (auto simp: kept_refl elim!: andThen_InrE dest!: loadModule_kept [OF rec scripts, rotated])
  done

lemma generateMock_kept:
  assumes rec: "recKept rec" and scripts: "scriptsNoTry ext" and fp: "factoriesNoTry s"
    and ex: "generateMock rec ext from moduleName s = Some (Inr v, s')"
  shows "kept s s'"
  using ex fp
  apply (simp add: generateMock_def Let_def newObject_def newMockMap_def newModuleMap_def
              split: sum.splits option.splits if_splits prod.splits)
  apply (auto simp: kept_refl kept_def newObject_def elim!: andThen_InrE
              dest!: requireModule_kept [OF rec scripts, rotated]
              split: sum.splits option.splits if_splits prod.splits)
  done

lemma callFactory_kept:
  assumes ex: "callFactory rec ext f s = Some (Inr v, s')"
    and f: "mockFactories s k = Some f" and fp: "factoriesNoTry s"
    and rec: "recKept rec"
  shows "kept s s'"
proof -
  from ex obtain u s1 where a: "execStmts rec ext (fac_ctx f) (fac_body f) JUndefined s = Some (Inr u, s1)"
    and b: "evalExpr (fac_result f) u s1 = (v, s')"
    by (auto simp: callFactory_def elim!: andThen_InrE split: prod.splits)
  have "list_all noTry (fac_body f)"
    using f fp by (auto simp: factoriesNoTry_def)
  from execStmts_kept [OF rec fp this a] b show ?thesis
    by (cases "fac_result f") (auto simp: newObject_def)
qed

lemma requireMock_kept:
  assumes rec: "recKept rec" and scripts: "scriptsNoTry ext" and fp: "factoriesNoTry s"
    and ex: "requireMock rec ext from moduleName s = Some (Inr v, s')"
  shows "kept s s'"
  using ex fp
  apply (simp add: requireMock_def Let_def newLocalModule_def newObject_def newModule_def
              split: sum.splits option.splits if_splits prod.splits)
  apply (auto simp: kept_refl mapSet_def elim!: andThen_InrE
              dest!: callFactory_kept [OF _ _ _ rec] loadModule_kept [OF rec scripts, rotated]
                     generateMock_kept [OF rec scripts, rotated])
  done

lemma shouldMock_kept:
  assumes "shouldMock ext from moduleName s = (r, s1)" and "factoriesNoTry s"
  shows "kept s s1"
  using assms
  by (auto simp: shouldMock_def Let_def kept_refl
           split: option.splits if_splits sum.splits)

lemma requireModuleOrMock_kept:
  assumes rec: "recKept rec" and scripts: "scriptsNoTry ext" and fp: "factoriesNoTry s"
    and ex: "requireModuleOrMock rec ext from moduleName s = Some (Inr v, s')"
  shows "kept s s'"
proof -
  from ex obtain b s1 where sm: "shouldMock ext from moduleName s = (Inr b, s1)"
    and call: "(if b then requireMock rec ext from moduleName s1
                else requireModule rec ext from (Some moduleName) False False s1)
               = Some (Inr v, s')"
    by (auto simp: requireModuleOrMock_def rethrow_def
             split: prod.splits sum.splits option.splits)
  from sm fp have f: "kept s s1"
    by (rule shouldMock_kept)
  then have fp1: "factoriesNoTry s1"
    by (rule kept_factories)
  have "kept s1 s'"
    using call requireMock_kept [OF rec scripts fp1] requireModule_kept [OF rec scripts fp1]
    by (auto split: if_splits)
  with f show ?thesis
    by (rule kept_trans)
qed

lemma isolateModules_kept:
  assumes rec: "recKept rec" and fp: "factoriesNoTry s" and ok: "list_all noTry fn"
    and ex: "isolateModules rec ext c fn s = Some (Inr v, s')"
  shows "kept s s'"
proof -
  define s2 where "s2 = (snd (newMockMap ((snd (newModuleMap s))
                            \<lparr>isolatedModuleRegistry := Some (nextModuleMap s)\<rparr>)))
                          \<lparr>isolatedMockRegistry := Some (nextMockMap s)\<rparr>"
  from ex obtain u s3 where run: "execStmts rec ext c fn JUndefined s2 = Some (Inr u, s3)"
    and s': "s' = s3\<lparr>isolatedModuleRegistry := None, isolatedMockRegistry := None\<rparr>"
    by (auto simp: isolateModules_def s2_def newModuleMap_def newMockMap_def
             elim!: andThen_InrE split: if_splits)
  have fp2: "factoriesNoTry s2"
    using fp by (simp add: s2_def newModuleMap_def newMockMap_def)
  from execStmts_kept [OF rec fp2 ok run] have "kept s2 s3" .
  then show ?thesis
    using s' by (simp add: s2_def newModuleMap_def newMockMap_def)
qed

lemma run_recKept:
  assumes scripts: "scriptsNoTry ext"
  shows "recKept (run n ext)"
proof (induction n)
  case 0
  then show ?case by (simp add: recKept_def)
next
  case (Suc n)
  show ?case
    unfolding recKept_def
  proof (intro allI impI)
    fix c s v s'
    assume fp: "factoriesNoTry s" and code: "list_all noTry (callCode c)"
      and ex: "run (Suc n) ext c s = Some (Inr v, s')"
    show "kept s s'"
    proof (cases c)
      case (CRequireModuleOrMock fr moduleName)
      with ex requireModuleOrMock_kept [OF Suc scripts fp] show ?thesis by simp
    next
      case (CRequireInternalModule fr moduleName)
      with ex requireModule_kept [OF Suc scripts fp] show ?thesis
        by (simp add: requireInternalModule_def)
    next
      case (CRequireActual fr moduleName)
      with ex requireModule_kept [OF Suc scripts fp] show ?thesis
        by (simp add: requireActual_def)
    next
      case (CRequireMock fr moduleName)
      with ex requireMock_kept [OF Suc scripts fp] show ?thesis by simp
    next
      case (CGenerateMock fr moduleName)
      with ex generateMock_kept [OF Suc scripts fp] show ?thesis by simp
    next
      case (CIsolateModules ctx fn)
      with ex code isolateModules_kept [OF Suc fp] show ?thesis by simp
    qed
  qed
qed

text \<open>
  C6, as the code has it. Let \<open>isolateModules(fn)\<close> return normally on a runtime whose
  registries are allocated map objects, where neither \<open>fn\<close> nor the code of a module
  of the project nor a registered mock factory calls \<open>resetModules\<close>. Then the map
  objects that were the module registry and the mock registry before the call hold after
  the call what they held before. If moreover none of that code has a \<open>try\<close>
  statement, the fields \<open>_moduleRegistry\<close> and \<open>_mockRegistry\<close> still point to these
  map objects, and so the registries hold the keys they held before the call.
\<close>

theorem isolateModules_keys_unchanged:
  assumes ex: "isolateModules (run n ext) ext c fn s = Some (Inr v, s')"
    and fn: "list_all noReset fn" and scripts: "scriptsOk ext" and factories: "factoriesOk s"
    and wf: "registriesAllocated s"
  shows "moduleMaps s' (moduleRegistry s) = moduleMaps s (moduleRegistry s)
         \<and> mockMaps s' (mockRegistry s) = mockMaps s (mockRegistry s)
         \<and> (list_all noTry fn \<and> scriptsNoTry ext \<and> factoriesNoTry s \<longrightarrow>
              moduleRegistry s' = moduleRegistry s \<and> mockRegistry s' = mockRegistry s
              \<and> dom (moduleMaps s' (moduleRegistry s')) = dom (moduleMaps s (moduleRegistry s))
              \<and> dom (mockMaps s' (mockRegistry s')) = dom (mockMaps s (mockRegistry s)))"
proof -
  define s2 where "s2 = (snd (newMockMap ((snd (newModuleMap s))
                            \<lparr>isolatedModuleRegistry := Some (nextModuleMap s)\<rparr>)))
                          \<lparr>isolatedMockRegistry := Some (nextMockMap s)\<rparr>"
  from ex obtain u s3 where none: "isolatedModuleRegistry s = None" "isolatedMockRegistry s = None"
    and run: "execStmts (run n ext) ext c fn JUndefined s2 = Some (Inr u, s3)"
    and s': "s' = s3\<lparr>isolatedModuleRegistry := None, isolatedMockRegistry := None\<rparr>"
    by (auto simp: isolateModules_def s2_def newModuleMap_def newMockMap_def
             elim!: andThen_InrE split: if_splits)
  have iso: "isolating s2"
    using wf factories
    by (simp add: isolating_def registriesAllocated_def s2_def newModuleMap_def newMockMap_def
                  factoriesOk_def)
  from execStmts_iso [OF run_recIso [OF scripts] iso fn run]
  have "isoFrame s2 s3" .
  then have contents: "moduleMaps s' (moduleRegistry s) = moduleMaps s (moduleRegistry s)"
    "mockMaps s' (mockRegistry s) = mockMaps s (mockRegistry s)"
    using wf s'
    by (auto simp: isoFrame_def registriesAllocated_def s2_def newModuleMap_def newMockMap_def)
  have pointers: "moduleRegistry s' = moduleRegistry s \<and> mockRegistry s' = mockRegistry s"
    if "list_all noTry fn" and "scriptsNoTry ext" and "factoriesNoTry s"
  proof -
    have "factoriesNoTry s2"
      using that(3) by (simp add: s2_def newModuleMap_def newMockMap_def)
    from execStmts_kept [OF run_recKept [OF that(2)] this that(1) run]
    have "kept s2 s3" .
    then show ?thesis
      using s' by (simp add: kept_def s2_def newModuleMap_def newMockMap_def)
  qed
  show ?thesis
    using contents pointers by auto
qed

theorem isolateModules_keys_unchanged_witness:
  "(\<exists>s'. isolateModules (run 3 twoFiles) twoFiles
           \<lparr>ctx_filename = ''/t'', ctx_module = 0, ctx_internal = False\<rparr>
           [Require ''a'', RequireMock ''b'']
           (snd (the (requireModuleOrMock (run 1 twoFiles) twoFiles ''/t'' ''b'' (newRuntime False))))
         = Some (Inr JUndefined, s')
       \<and> dom (moduleMaps s' (moduleRegistry s')) = {''/b''}
       \<and> dom (mockMaps s' (mockRegistry s')) = {}
       \<and> nextModule s' = 3)
   \<and> (\<exists>s'. isolateModules (run 1 throwerProject) throwerProject
           \<lparr>ctx_filename = ''/t'', ctx_module = 0, ctx_internal = False\<rparr>
           [TryCatch [RequireMock ''thrower''] []]
           (snd (the (requireModuleOrMock (run 0 throwerProject) throwerProject ''/t'' ''b''
                        (newRuntime False))))
         = Some (Inr JUndefined, s')
       \<and> moduleRegistry s' = 3
       \<and> dom (moduleMaps s' 1) = {''/b''})"
proof -
  let ?c = "\<lparr>ctx_filename = ''/t'', ctx_module = 0, ctx_internal = False\<rparr>"
  let ?fn = "[Require ''a'', RequireMock ''b'']"
  let ?S = "snd (the (requireModuleOrMock (run 1 twoFiles) twoFiles ''/t'' ''b'' (newRuntime False)))"
  have "\<exists>s'. isolateModules (run 3 twoFiles) twoFiles ?c ?fn ?S = Some (Inr JUndefined, s')
             \<and> nextModule s' = 3"
    by (simp add: twoFiles_def method_defs heap_defs sample_defs Let_def eval_nat_numeral)
  then obtain s' where h: "isolateModules (run 3 twoFiles) twoFiles ?c ?fn ?S = Some (Inr JUndefined, s')"
    and m: "nextModule s' = 3"
    by blast
  have fn: "list_all noReset ?fn" and fn': "list_all noTry ?fn"
    by simp_all
  have scripts: "scriptsOk twoFiles"
    by (auto simp: scriptsOk_def twoFiles_def sample_defs split: if_splits)
  have scripts': "scriptsNoTry twoFiles"
    by (auto simp: scriptsNoTry_def twoFiles_def sample_defs split: if_splits)
  have b1: "factoriesOk ?S" and b2: "registriesAllocated ?S" and b5: "factoriesNoTry ?S"
    and b3: "dom (moduleMaps ?S (moduleRegistry ?S)) = {''/b''}"
    and b4: "dom (mockMaps ?S (mockRegistry ?S)) = {}"
    by (simp_all add: factoriesOk_def factoriesNoTry_def registriesAllocated_def twoFiles_def
                      method_defs heap_defs sample_defs Let_def)
  note k = isolateModules_keys_unchanged [OF h fn scripts b1 b2]
  from k fn' scripts' b5
  have k3: "dom (moduleMaps s' (moduleRegistry s')) = dom (moduleMaps ?S (moduleRegistry ?S))"
    and k4: "dom (mockMaps s' (mockRegistry s')) = dom (mockMaps ?S (mockRegistry ?S))"
    by blast+
  have r3: "dom (moduleMaps s' (moduleRegistry s')) = {''/b''}"
    using k3 b3 by (rule trans)
  have r4: "dom (mockMaps s' (mockRegistry s')) = {}"
    using k4 b4 by (rule trans)
  from h m r3 r4 have first: "\<exists>s'. isolateModules (run 3 twoFiles) twoFiles ?c ?fn ?S
                                       = Some (Inr JUndefined, s')
       \<and> dom (moduleMaps s' (moduleRegistry s')) = {''/b''}
       \<and> dom (mockMaps s' (mockRegistry s')) = {}
       \<and> nextModule s' = 3"
    by blast
  let ?gn = "[TryCatch [RequireMock ''thrower''] []]"
  let ?T = "snd (the (requireModuleOrMock (run 0 throwerProject) throwerProject ''/t'' ''b''
                        (newRuntime False)))"
  have "\<exists>t'. isolateModules (run 1 throwerProject) throwerProject ?c ?gn ?T = Some (Inr JUndefined, t')
             \<and> moduleRegistry t' = 3"
    by (simp add: throwerProject_def method_defs heap_defs sample_defs Let_def catchError_def)
  then obtain t' where g: "isolateModules (run 1 throwerProject) throwerProject ?c ?gn ?T
                             = Some (Inr JUndefined, t')"
    and p: "moduleRegistry t' = 3"
    by blast
  have gn: "list_all noReset ?gn"
    by simp
  have scriptsT: "scriptsOk throwerProject"
    by (auto simp: scriptsOk_def throwerProject_def sample_defs split: if_splits)
  have c1: "factoriesOk ?T" and c2: "registriesAllocated ?T"
    and c3: "moduleRegistry ?T = 1" and c4: "dom (moduleMaps ?T 1) = {''/b''}"
    by (simp_all add: factoriesOk_def registriesAllocated_def throwerProject_def
                      method_defs heap_defs sample_defs Let_def)
  from isolateModules_keys_unchanged [OF g gn scriptsT c1 c2]
  have "moduleMaps t' (moduleRegistry ?T) = moduleMaps ?T (moduleRegistry ?T)"
    by blast
  then have "moduleMaps t' 1 = moduleMaps ?T 1"
    by (simp only: c3)
  then have "dom (moduleMaps t' 1) = {''/b''}"
    by (simp only: c4)
  with g p have second: "\<exists>t'. isolateModules (run 1 throwerProject) throwerProject ?c ?gn ?T
                                  = Some (Inr JUndefined, t')
       \<and> moduleRegistry t' = 3 \<and> dom (moduleMaps t' 1) = {''/b''}"
    by blast
  from first second show ?thesis
    by blast
qed

text \<open>
  C6 fails as stated. When \<open>fn\<close> catches the error thrown by a \<open>requireMock\<close> of a
  module that throws while \<open>_generateMock\<close> loads it, \<open>isolateModules(fn)\<close> returns
  normally with the throwaway maps of \<open>_generateMock\<close> as registries: the module
  registry had the key \<open>/b\<close> and has none. And when \<open>fn\<close> requires a module whose
  code calls \<open>resetModules\<close>, the registries are emptied.
\<close>

theorem isolateModules_keys_changed:
  "map_option fst
     (isolateModules (run 1 throwerProject) throwerProject
        \<lparr>ctx_filename = ''/t'', ctx_module = 0, ctx_internal = False\<rparr>
        [TryCatch [RequireMock ''thrower''] []]
        (snd (the (requireModuleOrMock (run 0 throwerProject) throwerProject ''/t'' ''b''
                     (newRuntime False)))))
     = Some (Inr JUndefined)
   \<and> map_option ((\<lambda>s. (moduleRegistry s, dom (moduleMaps s (moduleRegistry s)))) \<circ> snd)
     (isolateModules (run 1 throwerProject) throwerProject
        \<lparr>ctx_filename = ''/t'', ctx_module = 0, ctx_internal = False\<rparr>
        [TryCatch [RequireMock ''thrower''] []]
        (snd (the (requireModuleOrMock (run 0 throwerProject) throwerProject ''/t'' ''b''
                     (newRuntime False)))))
     = Some (3, {})
   \<and> (\<lambda>s. (moduleRegistry s, dom (moduleMaps s (moduleRegistry s))))
       (snd (the (requireModuleOrMock (run 0 throwerProject) throwerProject ''/t'' ''b''
                    (newRuntime False))))
     = (1, {''/b''})
   \<and> map_option fst
     (isolateModules (run 1 resetProject) resetProject
        \<lparr>ctx_filename = ''/t'', ctx_module = 0, ctx_internal = False\<rparr>
        [Require ''c'']
        (snd (the (requireModuleOrMock (run 0 resetProject) resetProject ''/t'' ''b''
                     (newRuntime False)))))
     = Some (Inr JUndefined)
   \<and> map_option ((\<lambda>s. (moduleRegistry s, dom (moduleMaps s (moduleRegistry s)))) \<circ> snd)
     (isolateModules (run 1 resetProject) resetProject
        \<lparr>ctx_filename = ''/t'', ctx_module = 0, ctx_internal = False\<rparr>
        [Require ''c'']
        (snd (the (requireModuleOrMock (run 0 resetProject) resetProject ''/t'' ''b''
                     (newRuntime False)))))
     = Some (1, {})
   \<and> (\<lambda>s. (moduleRegistry s, dom (moduleMaps s (moduleRegistry s))))
       (snd (the (requireModuleOrMock (run 0 resetProject) resetProject ''/t'' ''b''
                    (newRuntime False))))
     = (1, {''/b''})"
  by (simp add: throwerProject_def resetProject_def method_defs heap_defs sample_defs Let_def
                catchError_def)

subsection \<open>Two consecutive requires\<close>

lemma pureStmt_noReset: "pureStmt x \<Longrightarrow> noReset x"
proof (induction x)
  case (JestIsolateModules fn)
  then show ?case
    by (auto simp: list_all_iff)
qed simp_all

lemma pure_list_noReset: "list_all pureStmt xs \<Longrightarrow> list_all noReset xs"
  by (induction xs) (simp_all add: pureStmt_noReset)


lemma factoriesPure_factoriesOk: "factoriesPure s \<Longrightarrow> factoriesOk s"
  unfolding factoriesPure_def factoriesOk_def
  by (blast intro: pure_list_noReset)







lemma stable_grown: "stable ext s s' \<Longrightarrow> grown ext s s'"
  by (simp add: stable_def)



lemma factoriesPure_upd [simp]:
  "factoriesPure (s\<lparr>currentlyExecutingModulePath := x0\<rparr>) = factoriesPure s"
  "factoriesPure (s\<lparr>isCurrentlyExecutingManualMock := x1\<rparr>) = factoriesPure s"
  "factoriesPure (s\<lparr>explicitShouldMock := x2\<rparr>) = factoriesPure s"
  "factoriesPure (s\<lparr>transitiveShouldMock := x3\<rparr>) = factoriesPure s"
  "factoriesPure (s\<lparr>mockMetaDataCache := x4\<rparr>) = factoriesPure s"
  "factoriesPure (s\<lparr>mockRegistry := x5\<rparr>) = factoriesPure s"
  "factoriesPure (s\<lparr>isolatedMockRegistry := x6\<rparr>) = factoriesPure s"
  "factoriesPure (s\<lparr>moduleRegistry := x7\<rparr>) = factoriesPure s"
  "factoriesPure (s\<lparr>isolatedModuleRegistry := x8\<rparr>) = factoriesPure s"
  "factoriesPure (s\<lparr>internalModuleRegistry := x9\<rparr>) = factoriesPure s"
  "factoriesPure (s\<lparr>needsCoverageMapped := x10\<rparr>) = factoriesPure s"
  "factoriesPure (s\<lparr>shouldAutoMock := x11\<rparr>) = factoriesPure s"
  "factoriesPure (s\<lparr>shouldMockModuleCache := x12\<rparr>) = factoriesPure s"
  "factoriesPure (s\<lparr>shouldUnmockTransitiveDependenciesCache := x13\<rparr>) = factoriesPure s"
  "factoriesPure (s\<lparr>sourceMapRegistry := x14\<rparr>) = factoriesPure s"
  "factoriesPure (s\<lparr>virtualMocks := x15\<rparr>) = factoriesPure s"
  "factoriesPure (s\<lparr>moduleMaps := x16\<rparr>) = factoriesPure s"
  "factoriesPure (s\<lparr>nextModuleMap := x17\<rparr>) = factoriesPure s"
  "factoriesPure (s\<lparr>mockMaps := x18\<rparr>) = factoriesPure s"
  "factoriesPure (s\<lparr>nextMockMap := x19\<rparr>) = factoriesPure s"
  "factoriesPure (s\<lparr>modules := x20\<rparr>) = factoriesPure s"
  "factoriesPure (s\<lparr>nextModule := x21\<rparr>) = factoriesPure s"
  "factoriesPure (s\<lparr>nextObject := x22\<rparr>) = factoriesPure s"
  "factoriesPure (s\<lparr>exitCode := x23\<rparr>) = factoriesPure s"
  "factoriesPure (s\<lparr>consoleErrors := x24\<rparr>) = factoriesPure s"
  by (simp_all add: factoriesPure_def)

lemma policyGrown_upd_right [simp]:
  "policyGrown ext s (s'\<lparr>currentlyExecutingModulePath := x0\<rparr>) = policyGrown ext s s'"
  "policyGrown ext s (s'\<lparr>isCurrentlyExecutingManualMock := x1\<rparr>) = policyGrown ext s s'"
  "policyGrown ext s (s'\<lparr>transitiveShouldMock := x2\<rparr>) = policyGrown ext s s'"
  "policyGrown ext s (s'\<lparr>mockMetaDataCache := x3\<rparr>) = policyGrown ext s s'"
  "policyGrown ext s (s'\<lparr>mockRegistry := x4\<rparr>) = policyGrown ext s s'"
  "policyGrown ext s (s'\<lparr>isolatedMockRegistry := x5\<rparr>) = policyGrown ext s s'"
  "policyGrown ext s (s'\<lparr>moduleRegistry := x6\<rparr>) = policyGrown ext s s'"
  "policyGrown ext s (s'\<lparr>isolatedModuleRegistry := x7\<rparr>) = policyGrown ext s s'"
  "policyGrown ext s (s'\<lparr>internalModuleRegistry := x8\<rparr>) = policyGrown ext s s'"
  "policyGrown ext s (s'\<lparr>needsCoverageMapped := x9\<rparr>) = policyGrown ext s s'"
  "policyGrown ext s (s'\<lparr>sourceMapRegistry := x10\<rparr>) = policyGrown ext s s'"
  "policyGrown ext s (s'\<lparr>moduleMaps := x11\<rparr>) = policyGrown ext s s'"
  "policyGrown ext s (s'\<lparr>nextModuleMap := x12\<rparr>) = policyGrown ext s s'"
  "policyGrown ext s (s'\<lparr>mockMaps := x13\<rparr>) = policyGrown ext s s'"
  "policyGrown ext s (s'\<lparr>nextMockMap := x14\<rparr>) = policyGrown ext s s'"
  "policyGrown ext s (s'\<lparr>modules := x15\<rparr>) = policyGrown ext s s'"
  "policyGrown ext s (s'\<lparr>nextModule := x16\<rparr>) = policyGrown ext s s'"
  "policyGrown ext s (s'\<lparr>nextObject := x17\<rparr>) = policyGrown ext s s'"
  "policyGrown ext s (s'\<lparr>exitCode := x18\<rparr>) = policyGrown ext s s'"
  "policyGrown ext s (s'\<lparr>consoleErrors := x19\<rparr>) = policyGrown ext s s'"
  by (simp_all add: policyGrown_def)

lemma policyGrown_upd_left [simp]:
  "policyGrown ext (s\<lparr>currentlyExecutingModulePath := x0\<rparr>) s' = policyGrown ext s s'"
  "policyGrown ext (s\<lparr>isCurrentlyExecutingManualMock := x1\<rparr>) s' = policyGrown ext s s'"
  "policyGrown ext (s\<lparr>transitiveShouldMock := x2\<rparr>) s' = policyGrown ext s s'"
  "policyGrown ext (s\<lparr>mockMetaDataCache := x3\<rparr>) s' = policyGrown ext s s'"
  "policyGrown ext (s\<lparr>mockRegistry := x4\<rparr>) s' = policyGrown ext s s'"
  "policyGrown ext (s\<lparr>isolatedMockRegistry := x5\<rparr>) s' = policyGrown ext s s'"
  "policyGrown ext (s\<lparr>moduleRegistry := x6\<rparr>) s' = policyGrown ext s s'"
  "policyGrown ext (s\<lparr>isolatedModuleRegistry := x7\<rparr>) s' = policyGrown ext s s'"
  "policyGrown ext (s\<lparr>internalModuleRegistry := x8\<rparr>) s' = policyGrown ext s s'"
  "policyGrown ext (s\<lparr>needsCoverageMapped := x9\<rparr>) s' = policyGrown ext s s'"
  "policyGrown ext (s\<lparr>sourceMapRegistry := x10\<rparr>) s' = policyGrown ext s s'"
  "policyGrown ext (s\<lparr>moduleMaps := x11\<rparr>) s' = policyGrown ext s s'"
  "policyGrown ext (s\<lparr>nextModuleMap := x12\<rparr>) s' = policyGrown ext s s'"
  "policyGrown ext (s\<lparr>mockMaps := x13\<rparr>) s' = policyGrown ext s s'"
  "policyGrown ext (s\<lparr>nextMockMap := x14\<rparr>) s' = policyGrown ext s s'"
  "policyGrown ext (s\<lparr>modules := x15\<rparr>) s' = policyGrown ext s s'"
  "policyGrown ext (s\<lparr>nextModule := x16\<rparr>) s' = policyGrown ext s s'"
  "policyGrown ext (s\<lparr>nextObject := x17\<rparr>) s' = policyGrown ext s s'"
  "policyGrown ext (s\<lparr>exitCode := x18\<rparr>) s' = policyGrown ext s s'"
  "policyGrown ext (s\<lparr>consoleErrors := x19\<rparr>) s' = policyGrown ext s s'"
  by (simp_all add: policyGrown_def)

lemma registriesGrown_upd_right [simp]:
  "registriesGrown s (s'\<lparr>currentlyExecutingModulePath := x0\<rparr>) = registriesGrown s s'"
  "registriesGrown s (s'\<lparr>isCurrentlyExecutingManualMock := x1\<rparr>) = registriesGrown s s'"
  "registriesGrown s (s'\<lparr>explicitShouldMock := x2\<rparr>) = registriesGrown s s'"
  "registriesGrown s (s'\<lparr>transitiveShouldMock := x3\<rparr>) = registriesGrown s s'"
  "registriesGrown s (s'\<lparr>mockFactories := x4\<rparr>) = registriesGrown s s'"
  "registriesGrown s (s'\<lparr>mockMetaDataCache := x5\<rparr>) = registriesGrown s s'"
  "registriesGrown s (s'\<lparr>needsCoverageMapped := x6\<rparr>) = registriesGrown s s'"
  "registriesGrown s (s'\<lparr>shouldAutoMock := x7\<rparr>) = registriesGrown s s'"
  "registriesGrown s (s'\<lparr>shouldMockModuleCache := x8\<rparr>) = registriesGrown s s'"
  "registriesGrown s (s'\<lparr>shouldUnmockTransitiveDependenciesCache := x9\<rparr>) = registriesGrown s s'"
  "registriesGrown s (s'\<lparr>sourceMapRegistry := x10\<rparr>) = registriesGrown s s'"
  "registriesGrown s (s'\<lparr>virtualMocks := x11\<rparr>) = registriesGrown s s'"
  "registriesGrown s (s'\<lparr>mockMaps := x12\<rparr>) = registriesGrown s s'"
  "registriesGrown s (s'\<lparr>nextMockMap := x13\<rparr>) = registriesGrown s s'"
  "registriesGrown s (s'\<lparr>modules := x14\<rparr>) = registriesGrown s s'"
  "registriesGrown s (s'\<lparr>nextModule := x15\<rparr>) = registriesGrown s s'"
  "registriesGrown s (s'\<lparr>nextObject := x16\<rparr>) = registriesGrown s s'"
  "registriesGrown s (s'\<lparr>exitCode := x17\<rparr>) = registriesGrown s s'"
  "registriesGrown s (s'\<lparr>consoleErrors := x18\<rparr>) = registriesGrown s s'"
  by (simp_all add: registriesGrown_def)

lemma registriesGrown_upd_left [simp]:
  "registriesGrown (s\<lparr>currentlyExecutingModulePath := x0\<rparr>) s' = registriesGrown s s'"
  "registriesGrown (s\<lparr>isCurrentlyExecutingManualMock := x1\<rparr>) s' = registriesGrown s s'"
  "registriesGrown (s\<lparr>explicitShouldMock := x2\<rparr>) s' = registriesGrown s s'"
  "registriesGrown (s\<lparr>transitiveShouldMock := x3\<rparr>) s' = registriesGrown s s'"
  "registriesGrown (s\<lparr>mockFactories := x4\<rparr>) s' = registriesGrown s s'"
  "registriesGrown (s\<lparr>mockMetaDataCache := x5\<rparr>) s' = registriesGrown s s'"
  "registriesGrown (s\<lparr>needsCoverageMapped := x6\<rparr>) s' = registriesGrown s s'"
  "registriesGrown (s\<lparr>shouldAutoMock := x7\<rparr>) s' = registriesGrown s s'"
  "registriesGrown (s\<lparr>shouldMockModuleCache := x8\<rparr>) s' = registriesGrown s s'"
  "registriesGrown (s\<lparr>shouldUnmockTransitiveDependenciesCache := x9\<rparr>) s' = registriesGrown s s'"
  "registriesGrown (s\<lparr>sourceMapRegistry := x10\<rparr>) s' = registriesGrown s s'"
  "registriesGrown (s\<lparr>virtualMocks := x11\<rparr>) s' = registriesGrown s s'"
  "registriesGrown (s\<lparr>mockMaps := x12\<rparr>) s' = registriesGrown s s'"
  "registriesGrown (s\<lparr>nextMockMap := x13\<rparr>) s' = registriesGrown s s'"
  "registriesGrown (s\<lparr>modules := x14\<rparr>) s' = registriesGrown s s'"
  "registriesGrown (s\<lparr>nextModule := x15\<rparr>) s' = registriesGrown s s'"
  "registriesGrown (s\<lparr>nextObject := x16\<rparr>) s' = registriesGrown s s'"
  "registriesGrown (s\<lparr>exitCode := x17\<rparr>) s' = registriesGrown s s'"
  "registriesGrown (s\<lparr>consoleErrors := x18\<rparr>) s' = registriesGrown s s'"
  by (simp_all add: registriesGrown_def)

lemma grown_upd_right [simp]:
  "grown ext s (s'\<lparr>currentlyExecutingModulePath := x0\<rparr>) = grown ext s s'"
  "grown ext s (s'\<lparr>isCurrentlyExecutingManualMock := x1\<rparr>) = grown ext s s'"
  "grown ext s (s'\<lparr>transitiveShouldMock := x2\<rparr>) = grown ext s s'"
  "grown ext s (s'\<lparr>mockMetaDataCache := x3\<rparr>) = grown ext s s'"
  "grown ext s (s'\<lparr>needsCoverageMapped := x4\<rparr>) = grown ext s s'"
  "grown ext s (s'\<lparr>sourceMapRegistry := x5\<rparr>) = grown ext s s'"
  "grown ext s (s'\<lparr>mockMaps := x6\<rparr>) = grown ext s s'"
  "grown ext s (s'\<lparr>nextMockMap := x7\<rparr>) = grown ext s s'"
  "grown ext s (s'\<lparr>modules := x8\<rparr>) = grown ext s s'"
  "grown ext s (s'\<lparr>nextModule := x9\<rparr>) = grown ext s s'"
  "grown ext s (s'\<lparr>nextObject := x10\<rparr>) = grown ext s s'"
  "grown ext s (s'\<lparr>exitCode := x11\<rparr>) = grown ext s s'"
  "grown ext s (s'\<lparr>consoleErrors := x12\<rparr>) = grown ext s s'"
  by (simp_all add: grown_def)

lemma grown_upd_left [simp]:
  "grown ext (s\<lparr>currentlyExecutingModulePath := x0\<rparr>) s' = grown ext s s'"
  "grown ext (s\<lparr>isCurrentlyExecutingManualMock := x1\<rparr>) s' = grown ext s s'"
  "grown ext (s\<lparr>transitiveShouldMock := x2\<rparr>) s' = grown ext s s'"
  "grown ext (s\<lparr>mockMetaDataCache := x3\<rparr>) s' = grown ext s s'"
  "grown ext (s\<lparr>needsCoverageMapped := x4\<rparr>) s' = grown ext s s'"
  "grown ext (s\<lparr>sourceMapRegistry := x5\<rparr>) s' = grown ext s s'"
  "grown ext (s\<lparr>mockMaps := x6\<rparr>) s' = grown ext s s'"
  "grown ext (s\<lparr>nextMockMap := x7\<rparr>) s' = grown ext s s'"
  "grown ext (s\<lparr>modules := x8\<rparr>) s' = grown ext s s'"
  "grown ext (s\<lparr>nextModule := x9\<rparr>) s' = grown ext s s'"
  "grown ext (s\<lparr>nextObject := x10\<rparr>) s' = grown ext s s'"
  "grown ext (s\<lparr>exitCode := x11\<rparr>) s' = grown ext s s'"
  "grown ext (s\<lparr>consoleErrors := x12\<rparr>) s' = grown ext s s'"
  by (simp_all add: grown_def)






























subsection \<open>The throwaway registries of \<open>_generateMock\<close>\<close>

lemma untouched_refl: "detached a b s \<Longrightarrow> untouched a b s s"
  by (simp add: untouched_def)

lemma untouched_trans: "untouched a b s s1 \<Longrightarrow> untouched a b s1 s2 \<Longrightarrow> untouched a b s s2"
  by (simp add: untouched_def)

lemma untouched_detached: "untouched a b s s' \<Longrightarrow> detached a b s'"
  by (simp add: untouched_def)

lemma recUntouchedD:
  assumes "recUntouched rec" and "rec c s = Some (r, s')" and "detached a b s"
  shows "untouched a b s s'"
  using assms unfolding recUntouched_def by blast

lemma detached_upd [simp]:
  "detached a b (s\<lparr>currentlyExecutingModulePath := x0\<rparr>) = detached a b s"
  "detached a b (s\<lparr>isCurrentlyExecutingManualMock := x1\<rparr>) = detached a b s"
  "detached a b (s\<lparr>explicitShouldMock := x2\<rparr>) = detached a b s"
  "detached a b (s\<lparr>transitiveShouldMock := x3\<rparr>) = detached a b s"
  "detached a b (s\<lparr>mockFactories := x4\<rparr>) = detached a b s"
  "detached a b (s\<lparr>mockMetaDataCache := x5\<rparr>) = detached a b s"
  "detached a b (s\<lparr>needsCoverageMapped := x6\<rparr>) = detached a b s"
  "detached a b (s\<lparr>shouldAutoMock := x7\<rparr>) = detached a b s"
  "detached a b (s\<lparr>shouldMockModuleCache := x8\<rparr>) = detached a b s"
  "detached a b (s\<lparr>shouldUnmockTransitiveDependenciesCache := x9\<rparr>) = detached a b s"
  "detached a b (s\<lparr>sourceMapRegistry := x10\<rparr>) = detached a b s"
  "detached a b (s\<lparr>virtualMocks := x11\<rparr>) = detached a b s"
  "detached a b (s\<lparr>modules := x12\<rparr>) = detached a b s"
  "detached a b (s\<lparr>nextModule := x13\<rparr>) = detached a b s"
  "detached a b (s\<lparr>nextObject := x14\<rparr>) = detached a b s"
  "detached a b (s\<lparr>exitCode := x15\<rparr>) = detached a b s"
  "detached a b (s\<lparr>consoleErrors := x16\<rparr>) = detached a b s"
  by (simp_all add: detached_def)

lemma untouched_upd_right [simp]:
  "untouched a b s (s'\<lparr>currentlyExecutingModulePath := x0\<rparr>) = untouched a b s s'"
  "untouched a b s (s'\<lparr>isCurrentlyExecutingManualMock := x1\<rparr>) = untouched a b s s'"
  "untouched a b s (s'\<lparr>explicitShouldMock := x2\<rparr>) = untouched a b s s'"
  "untouched a b s (s'\<lparr>transitiveShouldMock := x3\<rparr>) = untouched a b s s'"
  "untouched a b s (s'\<lparr>mockFactories := x4\<rparr>) = untouched a b s s'"
  "untouched a b s (s'\<lparr>mockMetaDataCache := x5\<rparr>) = untouched a b s s'"
  "untouched a b s (s'\<lparr>needsCoverageMapped := x6\<rparr>) = untouched a b s s'"
  "untouched a b s (s'\<lparr>shouldAutoMock := x7\<rparr>) = untouched a b s s'"
  "untouched a b s (s'\<lparr>shouldMockModuleCache := x8\<rparr>) = untouched a b s s'"
  "untouched a b s (s'\<lparr>shouldUnmockTransitiveDependenciesCache := x9\<rparr>) = untouched a b s s'"
  "untouched a b s (s'\<lparr>sourceMapRegistry := x10\<rparr>) = untouched a b s s'"
  "untouched a b s (s'\<lparr>virtualMocks := x11\<rparr>) = untouched a b s s'"
  "untouched a b s (s'\<lparr>modules := x12\<rparr>) = untouched a b s s'"
  "untouched a b s (s'\<lparr>nextModule := x13\<rparr>) = untouched a b s s'"
  "untouched a b s (s'\<lparr>nextObject := x14\<rparr>) = untouched a b s s'"
  "untouched a b s (s'\<lparr>exitCode := x15\<rparr>) = untouched a b s s'"
  "untouched a b s (s'\<lparr>consoleErrors := x16\<rparr>) = untouched a b s s'"
  by (simp_all add: untouched_def)

lemma untouched_upd_left [simp]:
  "untouched a b (s\<lparr>currentlyExecutingModulePath := x0\<rparr>) s' = untouched a b s s'"
  "untouched a b (s\<lparr>isCurrentlyExecutingManualMock := x1\<rparr>) s' = untouched a b s s'"
  "untouched a b (s\<lparr>explicitShouldMock := x2\<rparr>) s' = untouched a b s s'"
  "untouched a b (s\<lparr>transitiveShouldMock := x3\<rparr>) s' = untouched a b s s'"
  "untouched a b (s\<lparr>mockFactories := x4\<rparr>) s' = untouched a b s s'"
  "untouched a b (s\<lparr>mockMetaDataCache := x5\<rparr>) s' = untouched a b s s'"
  "untouched a b (s\<lparr>needsCoverageMapped := x6\<rparr>) s' = untouched a b s s'"
  "untouched a b (s\<lparr>shouldAutoMock := x7\<rparr>) s' = untouched a b s s'"
  "untouched a b (s\<lparr>shouldMockModuleCache := x8\<rparr>) s' = untouched a b s s'"
  "untouched a b (s\<lparr>shouldUnmockTransitiveDependenciesCache := x9\<rparr>) s' = untouched a b s s'"
  "untouched a b (s\<lparr>sourceMapRegistry := x10\<rparr>) s' = untouched a b s s'"
  "untouched a b (s\<lparr>virtualMocks := x11\<rparr>) s' = untouched a b s s'"
  "untouched a b (s\<lparr>modules := x12\<rparr>) s' = untouched a b s s'"
  "untouched a b (s\<lparr>nextModule := x13\<rparr>) s' = untouched a b s s'"
  "untouched a b (s\<lparr>nextObject := x14\<rparr>) s' = untouched a b s s'"
  "untouched a b (s\<lparr>exitCode := x15\<rparr>) s' = untouched a b s s'"
  "untouched a b (s\<lparr>consoleErrors := x16\<rparr>) s' = untouched a b s s'"
  by (simp_all add: untouched_def)

lemma untouched_resetModules: "detached a b s \<Longrightarrow> untouched a b s (resetModules s)"
  by (auto simp: untouched_def detached_def resetModules_def)

lemma execStmt_untouched:
  assumes rec: "recUntouched rec"
  shows "detached a b s \<Longrightarrow> execStmt rec ext c x lv s = Some (r, s') \<Longrightarrow> untouched a b s s'"
proof (induction x arbitrary: lv s r s')
  case (Require n)
  then show ?case
    by (auto split: if_splits intro: recUntouchedD [OF rec])
next
  case (RequireActual n)
  then show ?case
    by (auto intro: recUntouchedD [OF rec])
next
  case (RequireMock n)
  then show ?case
    by (auto intro: recUntouchedD [OF rec])
next
  case (SetExports e)
  then show ?case
    by (cases e) (auto simp: untouched_refl setExports_def newObject_def split: prod.splits)
next
  case (Throw e)
  then show ?case by (simp add: untouched_refl)
next
  case (JestMock n f virtual)
  from JestMock.prems show ?case
    by (cases f) (auto simp: untouched_refl mock_def setMock_def Let_def split: prod.splits)
next
  case (JestSetMock n u)
  then show ?case
    by (auto simp: untouched_refl setMock_def Let_def)
next
  case (JestUnmock n)
  then show ?case
    by (auto simp: untouched_refl unmock_def Let_def)
next
  case (JestDeepUnmock n)
  then show ?case
    by (auto simp: untouched_refl deepUnmock_def Let_def)
next
  case JestEnableAutomock
  then show ?case
    by (auto simp: untouched_refl enableAutomock_def)
next
  case JestDisableAutomock
  then show ?case
    by (auto simp: untouched_refl disableAutomock_def)
next
  case JestResetModules
  then show ?case
    by (auto simp: untouched_resetModules)
next
  case (JestIsolateModules fn)
  from JestIsolateModules.prems(2)
  have "\<exists>q. rec (CIsolateModules c fn) s = Some (q, s')"
    by (auto elim!: andThen_SomeE)
  with JestIsolateModules.prems(1) show ?case
    by (auto intro: recUntouchedD [OF rec])
next
  case (JestGenMockFromModule n)
  then show ?case
    by (auto intro: recUntouchedD [OF rec])
next
  case (TryCatch body handler)
  show ?case
  proof (rule execStmt_TryCatch_inv [of body "detached a b" rec ext c "untouched a b" handler,
                                      OF _ _ _ _ _ TryCatch.prems(1) TryCatch.prems(2)])
    fix x lv s r s'
    assume "x \<in> set body" and "detached a b s" and "execStmt rec ext c x lv s = Some (r, s')"
    with TryCatch.IH(1) show "untouched a b s s'"
      by blast
  next
    fix x lv s r s'
    assume "x \<in> set handler" and "detached a b s" and "execStmt rec ext c x lv s = Some (r, s')"
    with TryCatch.IH(2) show "untouched a b s s'"
      by blast
  qed (auto intro: untouched_refl untouched_trans untouched_detached)
next
  case (TryFinally body finalizer)
  show ?case
  proof (rule execStmt_TryFinally_inv [of body "detached a b" rec ext c "untouched a b" finalizer,
                                        OF _ _ _ _ _ TryFinally.prems(1) TryFinally.prems(2)])
    fix x lv s r s'
    assume "x \<in> set body" and "detached a b s" and "execStmt rec ext c x lv s = Some (r, s')"
    with TryFinally.IH(1) show "untouched a b s s'"
      by blast
  next
    fix x lv s r s'
    assume "x \<in> set finalizer" and "detached a b s" and "execStmt rec ext c x lv s = Some (r, s')"
    with TryFinally.IH(2) show "untouched a b s s'"
      by blast
  qed (auto intro: untouched_refl untouched_trans untouched_detached)
qed

lemma execStmts_untouched:
  assumes rec: "recUntouched rec" and d: "detached a b s"
    and ex: "execStmts rec ext c xs lv s = Some (r, s')"
  shows "untouched a b s s'"
proof (rule execStmts_inv [of xs "detached a b" rec ext c "untouched a b", OF _ _ _ _ d ex])
  fix x lv s r s'
  assume "x \<in> set xs" and "detached a b s" and "execStmt rec ext c x lv s = Some (r, s')"
  with execStmt_untouched [OF rec] show "untouched a b s s'"
    by blast
qed (auto intro: untouched_refl untouched_trans untouched_detached)

lemma execModule_untouched:
  assumes rec: "recUntouched rec" and d: "detached a b s"
    and ex: "execModule rec ext localModule isInternalModule from s = Some (r, s')"
  shows "untouched a b s s'"
  using ex d
  by (auto simp: execModule_def Let_def logFormattedReferenceError_def untouched_refl
           split: sum.splits option.splits if_splits
           elim!: andThen_SomeE dest!: execStmts_untouched [OF rec, rotated])

lemma loadModule_untouched:
  assumes rec: "recUntouched rec" and d: "detached a b s"
    and ex: "loadModule rec ext localModule from moduleName modulePath isInternalModule s
               = Some (r, s')"
  shows "untouched a b s s'"
  using ex d
  by (auto simp: loadModule_def setExports_def newObject_def untouched_refl
           split: sum.splits option.splits if_splits prod.splits
           elim!: andThen_SomeE dest!: execModule_untouched [OF rec, rotated])

lemma untouched_moduleMapSet:
  assumes "detached a b s" and "R \<noteq> a"
  shows "untouched a b s (moduleMapSet R k m s)"
  using assms by (auto simp: untouched_def detached_def moduleMapSet_def)

lemma untouched_then_mapSet:
  assumes "untouched a b s s1" and "R \<noteq> b"
  shows "untouched a b s (mapSet R k v s1)"
  using assms by (auto simp: untouched_def detached_def mapSet_def)

lemma loadModule_untouched_registered:
  assumes "loadModule rec ext localModule from moduleName modulePath isInternalModule
             (moduleMapSet R k m s0) = Some (r, s')"
    and "detached a b s0" and "R \<noteq> a" and "recUntouched rec"
  shows "untouched a b s0 s'"
proof -
  have f: "untouched a b s0 (moduleMapSet R k m s0)"
    using assms(2,3) by (rule untouched_moduleMapSet)
  then have "detached a b (moduleMapSet R k m s0)"
    by (rule untouched_detached)
  from loadModule_untouched [OF assms(4) this assms(1)] f show ?thesis
    using untouched_trans by blast
qed

lemma requireModule_untouched:
  assumes rec: "recUntouched rec" and d: "detached a b s"
    and ex: "requireModule rec ext from moduleName isInternalModule isRequireActual s
               = Some (r, s')"
  shows "untouched a b s s'"
  using ex d rec
  apply (simp add: requireModule_def Let_def newLocalModule_def newObject_def newModule_def
              split: sum.splits option.splits if_splits prod.splits)
  apply (auto simp: untouched_refl detached_def elim!: andThen_SomeE
              dest!: loadModule_untouched_registered [where a = a and b = b])
  done

lemma generateMock_swap_untouched:
  assumes r: "requireModule rec ext from moduleName isInternalModule isRequireActual
              (s5\<lparr>moduleRegistry := y\<rparr>) = Some (q, s6)"
    and y: "newModuleMap (s4\<lparr>mockRegistry := x\<rparr>) = (y, s5)"
    and x: "newMockMap s = (x, s4)"
    and d: "detached a b s"
    and rec: "recUntouched rec"
  shows "untouched a b s s6
         \<and> untouched a b s (s6\<lparr>mockRegistry := mockRegistry s, moduleRegistry := moduleRegistry s\<rparr>)"
proof -
  have pre: "detached a b (s5\<lparr>moduleRegistry := y\<rparr>)"
    using d x y by (auto simp: detached_def newMockMap_def newModuleMap_def)
  from requireModule_untouched [OF rec pre r]
  have f: "untouched a b (s5\<lparr>moduleRegistry := y\<rparr>) s6" .
  show ?thesis
    using f d x y
    by (auto simp: untouched_def detached_def newMockMap_def newModuleMap_def)
qed

lemma generateMock_untouched:
  assumes rec: "recUntouched rec" and d: "detached a b s"
    and ex: "generateMock rec ext from moduleName s = Some (r, s')"
  shows "untouched a b s s'"
  using ex d rec
  apply (simp add: generateMock_def Let_def newObject_def
              split: sum.splits option.splits if_splits prod.splits)
  apply (auto simp: untouched_refl newObject_def elim!: andThen_SomeE
              dest!: generateMock_swap_untouched [where a = a and b = b]
              split: sum.splits option.splits if_splits prod.splits)
  done

lemma callFactory_untouched:
  assumes ex: "callFactory rec ext f s = Some (r, s')"
    and d: "detached a b s" and rec: "recUntouched rec"
  shows "untouched a b s s'"
proof -
  from ex have "andThen (execStmts rec ext (fac_ctx f) (fac_body f) JUndefined s)
                  (\<lambda>lastValue s1. case evalExpr (fac_result f) lastValue s1 of
                                     (v, s2) \<Rightarrow> Some (Inr v, s2)) = Some (r, s')"
    by (simp add: callFactory_def)
  then show ?thesis
  proof (cases rule: andThen_SomeE)
    case (thrown e)
    from execStmts_untouched [OF rec d thrown(1)] show ?thesis .
  next
    case (returned u s1)
    from returned(2) obtain v where "evalExpr (fac_result f) u s1 = (v, s')"
      by (auto split: prod.splits)
    with execStmts_untouched [OF rec d returned(1)] show ?thesis
      by (cases "fac_result f") (auto simp: newObject_def)
  qed
qed

lemma requireMock_untouched:
  assumes rec: "recUntouched rec" and d: "detached a b s"
    and ex: "requireMock rec ext from moduleName s = Some (r, s')"
  shows "untouched a b s s'"
proof -
  let ?R = "case isolatedMockRegistry s of Some r \<Rightarrow> r | None \<Rightarrow> mockRegistry s"
  have R: "?R \<noteq> b"
    using d by (auto simp: detached_def split: option.splits)
  show ?thesis
    using ex d rec R
    apply (simp add: requireMock_def Let_def newLocalModule_def newObject_def newModule_def
                split: sum.splits if_splits prod.splits)
    apply (auto simp: untouched_refl Let_def newLocalModule_def newObject_def newModule_def
                elim!: andThen_SomeE intro!: untouched_then_mapSet
                dest!: callFactory_untouched [where a = a and b = b]
                       loadModule_untouched [where a = a and b = b, rotated 2]
                       generateMock_untouched [where a = a and b = b, rotated 2]
                split: option.splits sum.splits if_splits prod.splits)
    done
qed

lemma requireModuleOrMock_untouched:
  assumes rec: "recUntouched rec" and d: "detached a b s"
    and ex: "requireModuleOrMock rec ext from moduleName s = Some (r, s')"
  shows "untouched a b s s'"
proof -
  obtain p s1 where sm: "shouldMock ext from moduleName s = (p, s1)"
    by (cases "shouldMock ext from moduleName s")
  from sm have "sameRegs s s1"
    by (rule shouldMock_sameRegs)
  with d have f: "untouched a b s s1"
    by (simp add: untouched_def detached_def sameRegs_def)
  then have d1: "detached a b s1"
    by (rule untouched_detached)
  show ?thesis
  proof (cases p)
    case (Inl e)
    with ex sm have "s' = s1"
      by (simp add: requireModuleOrMock_def rethrow_def)
    with f show ?thesis by simp
  next
    case (Inr m)
    with ex sm obtain q where
      "(if m then requireMock rec ext from moduleName s1
        else requireModule rec ext from (Some moduleName) False False s1) = Some (q, s')"
      by (auto simp: requireModuleOrMock_def rethrow_def
               split: option.splits sum.splits prod.splits if_splits)
    then have "untouched a b s1 s'"
      using requireMock_untouched [OF rec d1] requireModule_untouched [OF rec d1]
      by (auto split: if_splits)
    with f show ?thesis
      by (rule untouched_trans)
  qed
qed

lemma isolateModules_untouched:
  assumes rec: "recUntouched rec" and d: "detached a b s"
    and ex: "isolateModules rec ext c fn s = Some (r, s')"
  shows "untouched a b s s'"
proof (cases "isolatedModuleRegistry s \<noteq> None \<or> isolatedMockRegistry s \<noteq> None")
  case True
  with ex have "s' = s"
    by (auto simp: isolateModules_def)
  with d show ?thesis
    by (simp add: untouched_refl)
next
  case False
  define s2 where "s2 = (snd (newMockMap ((snd (newModuleMap s))
                            \<lparr>isolatedModuleRegistry := Some (nextModuleMap s)\<rparr>)))
                          \<lparr>isolatedMockRegistry := Some (nextMockMap s)\<rparr>"
  from ex False have "andThen (execStmts rec ext c fn JUndefined s2)
         (\<lambda>_ s3. Some (Inr JUndefined,
                        s3\<lparr>isolatedModuleRegistry := None, isolatedMockRegistry := None\<rparr>))
       = Some (r, s')"
    by (simp add: isolateModules_def s2_def newModuleMap_def newMockMap_def)
  then obtain q s3 where run: "execStmts rec ext c fn JUndefined s2 = Some (q, s3)"
    and s': "s' = s3 \<or> s' = s3\<lparr>isolatedModuleRegistry := None, isolatedMockRegistry := None\<rparr>"
    by (auto elim!: andThen_SomeE)
  have d2: "detached a b s2"
    using d by (auto simp: detached_def s2_def newModuleMap_def newMockMap_def)
  from execStmts_untouched [OF rec d2 run] have "untouched a b s2 s3" .
  then show ?thesis
    using d s' by (auto simp: untouched_def detached_def s2_def newModuleMap_def newMockMap_def)
qed

lemma run_recUntouched: "recUntouched (run n ext)"
proof (induction n)
  case 0
  then show ?case by (simp add: recUntouched_def)
next
  case (Suc n)
  show ?case
    unfolding recUntouched_def
  proof (intro allI impI)
    fix a b c s r s'
    assume d: "detached a b s" and ex: "run (Suc n) ext c s = Some (r, s')"
    show "untouched a b s s'"
    proof (cases c)
      case (CRequireModuleOrMock fr moduleName)
      with ex requireModuleOrMock_untouched [OF Suc d] show ?thesis by simp
    next
      case (CRequireInternalModule fr moduleName)
      with ex requireModule_untouched [OF Suc d] show ?thesis
        by (simp add: requireInternalModule_def)
    next
      case (CRequireActual fr moduleName)
      with ex requireModule_untouched [OF Suc d] show ?thesis
        by (simp add: requireActual_def)
    next
      case (CRequireMock fr moduleName)
      with ex requireMock_untouched [OF Suc d] show ?thesis by simp
    next
      case (CGenerateMock fr moduleName)
      with ex generateMock_untouched [OF Suc d] show ?thesis by simp
    next
      case (CIsolateModules ctx fn)
      with ex isolateModules_untouched [OF Suc d] show ?thesis by simp
    qed
  qed
qed

lemma generateMock_swap_contents:
  assumes r: "requireModule rec ext from moduleName isInternalModule isRequireActual
              (s5\<lparr>moduleRegistry := y\<rparr>) = Some (Inr v, s6)"
    and y: "newModuleMap (s4\<lparr>mockRegistry := x\<rparr>) = (y, s5)"
    and x: "newMockMap s = (x, s4)"
    and sep: "registriesSeparate s"
    and rec: "recUntouched rec"
  shows "mockMaps s6 (mockRegistry s) = mockMaps s (mockRegistry s)
         \<and> moduleMaps s6 (moduleRegistry s) = moduleMaps s (moduleRegistry s)"
proof -
  have pre: "detached (moduleRegistry s) (mockRegistry s) (s5\<lparr>moduleRegistry := y\<rparr>)"
    using sep x y by (auto simp: detached_def registriesSeparate_def newMockMap_def newModuleMap_def)
  from requireModule_untouched [OF rec pre r]
  have "untouched (moduleRegistry s) (mockRegistry s) (s5\<lparr>moduleRegistry := y\<rparr>) s6" .
  then show ?thesis
    using sep x y
    by (auto simp: untouched_def registriesSeparate_def newMockMap_def newModuleMap_def)
qed

lemma registriesSeparate_upd [simp]:
  "registriesSeparate (s\<lparr>nextObject := x1\<rparr>) = registriesSeparate s"
  "registriesSeparate (s\<lparr>mockMetaDataCache := x2\<rparr>) = registriesSeparate s"
  by (simp_all add: registriesSeparate_def)

lemma generateMock_contents:
  assumes ex: "generateMock rec ext from moduleName s = Some (Inr v, s')"
    and sep: "registriesSeparate s" and rec: "recUntouched rec"
  shows "mockMaps s' (mockRegistry s) = mockMaps s (mockRegistry s)
         \<and> moduleMaps s' (moduleRegistry s) = moduleMaps s (moduleRegistry s)"
  using ex sep
  apply (simp add: generateMock_def Let_def newObject_def
              split: sum.splits option.splits if_splits prod.splits)
  apply (auto simp: newObject_def elim!: andThen_InrE
              dest!: generateMock_swap_contents [OF _ _ _ _ rec]
              split: sum.splits option.splits if_splits prod.splits)
  done

text \<open>
  C5, as the code has it. Every call of \<open>_generateMock\<close> that returns normally leaves
  the fields \<open>_mockRegistry\<close> and \<open>_moduleRegistry\<close> pointing to the map objects they
  pointed to before the call; and when these are map objects of their own, they hold
  after the call what they held before, whatever the throwaway load of the real module
  did. Nothing is restored when the load of the real module throws.
\<close>

theorem generateMock_restores_on_return:
  assumes "generateMock (run n ext) ext from moduleName s = Some (Inr v, s')"
  shows "mockRegistry s' = mockRegistry s \<and> moduleRegistry s' = moduleRegistry s
         \<and> (registriesSeparate s \<longrightarrow>
              mockMaps s' (mockRegistry s') = mockMaps s (mockRegistry s)
              \<and> moduleMaps s' (moduleRegistry s') = moduleMaps s (moduleRegistry s))"
proof -
  have p: "mockRegistry s' = mockRegistry s \<and> moduleRegistry s' = moduleRegistry s"
    using assms
    by (auto simp: generateMock_def andThen_def newModuleMap_def newMockMap_def newObject_def
                   Let_def
             split: option.splits sum.splits prod.splits if_splits)
  with generateMock_contents [OF assms _ run_recUntouched] show ?thesis
    by simp
qed

theorem generateMock_restores_on_return_witness:
  "\<exists>s'. generateMock (run 2 twoFiles) twoFiles ''/t'' ''a''
          (snd (the (requireModuleOrMock (run 1 twoFiles) twoFiles ''/t'' ''b'' (newRuntime False))))
        = Some (Inr (JObj 5), s')
      \<and> mockRegistry s' = 0 \<and> moduleRegistry s' = 1
      \<and> moduleMaps s' (moduleRegistry s') = [''/b'' \<mapsto> 0]
      \<and> mockMaps s' (mockRegistry s') = Map.empty
      \<and> nextModule s' = 3"
proof -
  let ?S = "snd (the (requireModuleOrMock (run 1 twoFiles) twoFiles ''/t'' ''b'' (newRuntime False)))"
  have "\<exists>s'. generateMock (run 2 twoFiles) twoFiles ''/t'' ''a'' ?S = Some (Inr (JObj 5), s')
             \<and> nextModule s' = 3"
    by (simp add: twoFiles_def method_defs heap_defs sample_defs Let_def eval_nat_numeral)
  then obtain s' where
    h: "generateMock (run 2 twoFiles) twoFiles ''/t'' ''a'' ?S = Some (Inr (JObj 5), s')"
    and m: "nextModule s' = 3"
    by blast
  have sep: "registriesSeparate ?S"
    and b1: "mockRegistry ?S = 0" and b2: "moduleRegistry ?S = 1"
    and b3: "moduleMaps ?S (moduleRegistry ?S) = [''/b'' \<mapsto> 0]"
    and b4: "mockMaps ?S (mockRegistry ?S) = Map.empty"
    by (simp_all add: registriesSeparate_def twoFiles_def method_defs heap_defs sample_defs Let_def)
  note k = generateMock_restores_on_return [OF h]
  from k sep have k1: "mockRegistry s' = mockRegistry ?S" and k2: "moduleRegistry s' = moduleRegistry ?S"
    and k3: "moduleMaps s' (moduleRegistry s') = moduleMaps ?S (moduleRegistry ?S)"
    and k4: "mockMaps s' (mockRegistry s') = mockMaps ?S (mockRegistry ?S)"
    by blast+
  have r1: "mockRegistry s' = 0" using k1 b1 by (rule trans)
  have r2: "moduleRegistry s' = 1" using k2 b2 by (rule trans)
  have r3: "moduleMaps s' (moduleRegistry s') = [''/b'' \<mapsto> 0]" using k3 b3 by (rule trans)
  have r4: "mockMaps s' (mockRegistry s') = Map.empty" using k4 b4 by (rule trans)
  from h m r1 r2 r3 r4 show ?thesis
    by blast
qed

text \<open>
  C5 fails as stated: when the real module throws while it is loaded, the two throwaway
  maps stay in \<open>_mockRegistry\<close> and \<open>_moduleRegistry\<close>.
\<close>

theorem generateMock_throw_not_restored:
  "map_option fst
     (generateMock (run 0 (project [''/a'' \<mapsto> [Throw (Thrown ''boom'')]]))
        (project [''/a'' \<mapsto> [Throw (Thrown ''boom'')]]) ''/t'' ''a'' (newRuntime True))
     = Some (Inl (Thrown ''boom''))
   \<and> map_option (mockRegistry \<circ> snd)
     (generateMock (run 0 (project [''/a'' \<mapsto> [Throw (Thrown ''boom'')]]))
        (project [''/a'' \<mapsto> [Throw (Thrown ''boom'')]]) ''/t'' ''a'' (newRuntime True))
     = Some 1
   \<and> map_option (moduleRegistry \<circ> snd)
     (generateMock (run 0 (project [''/a'' \<mapsto> [Throw (Thrown ''boom'')]]))
        (project [''/a'' \<mapsto> [Throw (Thrown ''boom'')]]) ''/t'' ''a'' (newRuntime True))
     = Some 2
   \<and> mockRegistry (newRuntime True) = 0
   \<and> moduleRegistry (newRuntime True) = 1"
  by (simp add: method_defs heap_defs sample_defs Let_def)

end
